theory Spec2Isabelle
  imports Complex_Main
begin

section \<open>The DMG background generator: \<^verbatim>\<open>Assets/DMG/create_background.py\<close>\<close>

text \<open>
  The script composes a fixed list of drawing calls on a 540 x 300 canvas and saves the
  canvas as a PNG file. The embedding keeps the script's structure:
  \<^item> the drawing library (Pillow) is a capability interface: each call the script makes
    on \<^verbatim>\<open>draw\<close> is recorded as a value of \<open>draw_op\<close>, in call order;
  \<^item> what the script reads from its surroundings (which font files exist, whether they
    load, what the font measurement returns, whether Pillow can be imported, what the
    file system allows, what standard output can encode) is a record \<open>env\<close>;
  \<^item> what the script changes (directories, files, standard output, allocated
    canvases) is a record \<open>world\<close>, passed through and returned;
  \<^item> an exception or \<^verbatim>\<open>sys.exit\<close> is a value of \<open>result\<close>.
\<close>

subsection \<open>Numbers\<close>

text \<open>
  Python's \<^verbatim>\<open>/\<close> on two ints is true division and \<^verbatim>\<open>int(...)\<close> truncates toward zero.
  The quotients of the script are modelled as exact rationals. On the script's inputs
  the float result truncates to the same integer: the exact value of \<^verbatim>\<open>15 * y / 300\<close>
  is \<open>y / 20\<close> and that of \<^verbatim>\<open>5 * (i / 20) ** 2\<close> is \<open>i\<^sup>2 / 80\<close>; each is either an
  integer the floats represent exactly (\<open>y\<close> a multiple of 20, \<open>i = 0\<close>) or at least
  \<open>1 / 80\<close> away from every integer, far beyond the rounding error of a double.
\<close>

definition py_int :: "rat \<Rightarrow> int" where
  "py_int q = (if 0 \<le> q then \<lfloor>q\<rfloor> else \<lceil>q\<rceil>)"

subsection \<open>Drawing calls\<close>

type_synonym color = "int \<times> int \<times> int"
type_synonym point = "int \<times> int"

datatype font = TrueTypeFont string int | DefaultFont

datatype draw_op =
    Line "point list" color int
  | Text point string color "font option"
  | Polygon "point list" color
  | Ellipse int int int int color

text \<open>
  \<open>Line pts fill width\<close> is \<^verbatim>\<open>draw.line(pts, fill=fill, width=width)\<close> (Pillow's default
  width is 0); \<open>Text xy s fill font\<close> is \<^verbatim>\<open>draw.text(xy, s, fill=fill, font=font)\<close>, where
  the font \<open>None\<close> is Python's \<^verbatim>\<open>None\<close>; \<open>Ellipse x0 y0 x1 y1 fill\<close> is
  \<^verbatim>\<open>draw.ellipse([x0, y0, x1, y1], fill=fill)\<close>.
\<close>

fun coords :: "draw_op \<Rightarrow> point list" where
  "coords (Line pts _ _) = pts"
| "coords (Text xy _ _ _) = [xy]"
| "coords (Polygon pts _) = pts"
| "coords (Ellipse x0 y0 x1 y1 _) = [(x0, y0), (x1, y1)]"

subsection \<open>The environment\<close>

datatype py_exc =
    ImportError | NameError | FileNotFoundError | PermissionError | OSError | ValueError
  | UnicodeEncodeError | OtherException

datatype load_result = Loads | RaisesOSError | RaisesOther

text \<open>
  \<open>truetype e p s\<close> is the outcome of \<^verbatim>\<open>ImageFont.truetype(p, s)\<close>: the font loads, the call
  raises \<^verbatim>\<open>OSError\<close> (of which \<^verbatim>\<open>IOError\<close> is an alias), or it raises another
  \<^verbatim>\<open>Exception\<close>. \<open>textbbox e f s\<close> is \<^verbatim>\<open>draw.textbbox((0, 0), s, font=f)\<close>, a box
  \<open>(left, top, right, bottom)\<close> of ints. \<open>png_encode e w h ops\<close> stands for the bytes Pillow
  writes for a \<open>w\<close> by \<open>h\<close> canvas on which \<open>ops\<close> were drawn. \<open>stdout_encodes e s\<close> says
  whether the encoding of standard output has a byte sequence for every character of \<open>s\<close>.
\<close>

record env =
  pil_available :: bool
  os_path_exists :: "string \<Rightarrow> bool"
  truetype :: "string \<Rightarrow> int \<Rightarrow> load_result"
  textbbox :: "font option \<Rightarrow> string \<Rightarrow> int \<times> int \<times> int \<times> int"
  may_mkdir :: "string \<Rightarrow> bool"
  may_write :: "string \<Rightarrow> bool"
  png_encode :: "int \<Rightarrow> int \<Rightarrow> draw_op list \<Rightarrow> nat list"
  stdout_encodes :: "string \<Rightarrow> bool"

subsection \<open>\<^verbatim>\<open>create_dmg_background\<close>: the gradient\<close>

text \<open>
  \<^verbatim>\<open>
  for y in range(height):
      gradient_value = int(240 + (15 * y / height))
      color = (gradient_value - 5, gradient_value, gradient_value)
      draw.line([(0, y), (width, y)], fill=color)
  \<close>
\<close>

definition gradient_value :: "int \<Rightarrow> int \<Rightarrow> int" where
  "gradient_value y height = py_int (240 + of_int (15 * y) / of_int height)"

definition gradient_color :: "int \<Rightarrow> int \<Rightarrow> color" where
  "gradient_color y height =
     (gradient_value y height - 5, gradient_value y height, gradient_value y height)"

definition gradient_line :: "int \<Rightarrow> int \<Rightarrow> int \<Rightarrow> draw_op" where
  "gradient_line width height y = Line [(0, y), (width, y)] (gradient_color y height) 0"

definition gradient_pass :: "int \<Rightarrow> int \<Rightarrow> draw_op list" where
  "gradient_pass width height = map (gradient_line width height) [0..height - 1]"

subsection \<open>\<^verbatim>\<open>create_dmg_background\<close>: font resolution\<close>

text \<open>
  \<^verbatim>\<open>
  try:
      font_paths = [...]
      title_font = None
      instruction_font = None
      for font_path in font_paths:
          if os.path.exists(font_path):
              try:
                  title_font = ImageFont.truetype(font_path, 24)
                  instruction_font = ImageFont.truetype(font_path, 14)
                  break
              except (OSError, IOError):
                  continue
      if not title_font:
          title_font = ImageFont.load_default()
          instruction_font = ImageFont.load_default()
  except Exception:
      title_font = ImageFont.load_default()
      instruction_font = ImageFont.load_default()
  \<close>
  \<open>load_fonts\<close> is the \<^verbatim>\<open>for\<close> loop, with the two variables as its state: the result is
  their values when the loop ends, or the exception that leaves the loop. The first
  assignment of an iteration stays when the second \<^verbatim>\<open>truetype\<close> call raises.
\<close>

definition font_paths :: "string list" where
  "font_paths =
     [''/System/Library/Fonts/Helvetica.ttc'',
      ''/System/Library/Fonts/Arial.ttf'',
      ''/Library/Fonts/Arial.ttf'']"

fun load_fonts ::
  "env \<Rightarrow> string list \<Rightarrow> font option \<times> font option \<Rightarrow> py_exc + font option \<times> font option"
where
  "load_fonts e [] (title_font, instruction_font) = Inr (title_font, instruction_font)"
| "load_fonts e (font_path # rest) (title_font, instruction_font) =
     (if os_path_exists e font_path then
        (case truetype e font_path 24 of
           Loads \<Rightarrow>
             (case truetype e font_path 14 of
                Loads \<Rightarrow>
                  Inr (Some (TrueTypeFont font_path 24), Some (TrueTypeFont font_path 14))
              | RaisesOSError \<Rightarrow>
                  load_fonts e rest (Some (TrueTypeFont font_path 24), instruction_font)
              | RaisesOther \<Rightarrow> Inl OtherException)
         | RaisesOSError \<Rightarrow> load_fonts e rest (title_font, instruction_font)
         | RaisesOther \<Rightarrow> Inl OtherException)
      else load_fonts e rest (title_font, instruction_font))"

definition resolve_fonts :: "env \<Rightarrow> font option \<times> font option" where
  "resolve_fonts e =
     (case load_fonts e font_paths (None, None) of
        Inl exc \<Rightarrow> (Some DefaultFont, Some DefaultFont)
      | Inr (title_font, instruction_font) \<Rightarrow>
          if title_font = None then (Some DefaultFont, Some DefaultFont)
          else (title_font, instruction_font))"

subsection \<open>\<^verbatim>\<open>create_dmg_background\<close>: text, arrow, silhouette, version label\<close>

definition text_color :: color where "text_color = (80, 80, 80)"
definition accent_color :: color where "accent_color = (70, 130, 180)"
definition arrow_color :: color where "arrow_color = (150, 150, 150)"
definition cat_color :: color where "cat_color = (200, 200, 200)"

definition title_text :: string where
  "title_text = ''BangoCat for macOS''"

definition instruction_text :: string where
  "instruction_text = ''Drag BangoCat.app to the Applications folder to install''"

definition version_text :: string where
  "version_text = ''v1.5.2''"

text \<open>
  \<^verbatim>\<open>
  title_bbox = draw.textbbox((0, 0), title_text, font=title_font)
  title_width = title_bbox[2] - title_bbox[0]
  title_x = (width - title_width) // 2
  \<close>
  Python's \<^verbatim>\<open>//\<close> on ints rounds toward minus infinity, as \<open>div\<close> on \<open>int\<close> does.
\<close>

definition text_width :: "env \<Rightarrow> font option \<Rightarrow> string \<Rightarrow> int" where
  "text_width e f s = (case textbbox e f s of (x0, y0, x1, y1) \<Rightarrow> x1 - x0)"

definition title_width :: "env \<Rightarrow> int" where
  "title_width e = text_width e (fst (resolve_fonts e)) title_text"

definition title_x :: "env \<Rightarrow> int \<Rightarrow> int" where
  "title_x e width = (width - title_width e) div 2"

definition instruction_width :: "env \<Rightarrow> int" where
  "instruction_width e = text_width e (snd (resolve_fonts e)) instruction_text"

definition instruction_x :: "env \<Rightarrow> int \<Rightarrow> int" where
  "instruction_x e width = (width - instruction_width e) div 2"

definition text_pass :: "env \<Rightarrow> int \<Rightarrow> draw_op list" where
  "text_pass e width =
     [Text (title_x e width, 30) title_text accent_color (fst (resolve_fonts e)),
      Text (instruction_x e width, 65) instruction_text text_color (snd (resolve_fonts e))]"

definition arrow_start_x :: int where "arrow_start_x = 320"
definition arrow_start_y :: int where "arrow_start_y = 140"
definition arrow_end_x :: int where "arrow_end_x = 370"
definition arrow_end_y :: int where "arrow_end_y = 140"

definition arrow_pass :: "draw_op list" where
  "arrow_pass =
     [Line [(arrow_start_x, arrow_start_y), (arrow_end_x, arrow_end_y)] arrow_color 2,
      Polygon [(arrow_end_x, arrow_end_y),
               (arrow_end_x - 8, arrow_end_y - 4),
               (arrow_end_x - 8, arrow_end_y + 4)] arrow_color]"

definition cat_x :: int where "cat_x = 50"
definition cat_y :: int where "cat_y = 200"

definition cat_pass :: "draw_op list" where
  "cat_pass =
     [Ellipse cat_x cat_y (cat_x + 40) (cat_y + 25) cat_color,
      Ellipse (cat_x + 35) (cat_y - 15) (cat_x + 55) (cat_y + 5) cat_color,
      Polygon [(cat_x + 38, cat_y - 15), (cat_x + 42, cat_y - 25), (cat_x + 46, cat_y - 15)]
        cat_color,
      Polygon [(cat_x + 47, cat_y - 15), (cat_x + 51, cat_y - 25), (cat_x + 55, cat_y - 15)]
        cat_color]"

text \<open>
  \<^verbatim>\<open>
  for i in range(20):
      tail_x = cat_x - 5 + i
      tail_y = cat_y + 10 + int(5 * (i / 20) ** 2)
      draw.ellipse([tail_x, tail_y, tail_x + 4, tail_y + 8], fill=cat_color)
  \<close>
\<close>

definition tail_x :: "int \<Rightarrow> int" where
  "tail_x i = cat_x - 5 + i"

definition tail_y :: "int \<Rightarrow> int" where
  "tail_y i = cat_y + 10 + py_int (5 * (of_int i / 20) ^ 2)"

definition tail_ellipse :: "int \<Rightarrow> draw_op" where
  "tail_ellipse i = Ellipse (tail_x i) (tail_y i) (tail_x i + 4) (tail_y i + 8) cat_color"

definition tail_pass :: "draw_op list" where
  "tail_pass = map tail_ellipse [0..20 - 1]"

definition version_pass :: "env \<Rightarrow> int \<Rightarrow> int \<Rightarrow> draw_op list" where
  "version_pass e width height =
     [Text (width - 60, height - 25) version_text (180, 180, 180) (snd (resolve_fonts e))]"

text \<open>The calls on \<^verbatim>\<open>draw\<close> that one run of \<^verbatim>\<open>create_dmg_background\<close> makes, in order.\<close>

definition background_ops :: "env \<Rightarrow> int \<Rightarrow> int \<Rightarrow> draw_op list" where
  "background_ops e width height =
     gradient_pass width height @ text_pass e width @ arrow_pass @ cat_pass @ tail_pass
       @ version_pass e width height"

subsection \<open>The file system and the process\<close>

text \<open>
  \<open>dirs\<close> are the directories that exist, \<open>files\<close> the contents of the files written,
  \<open>stdout\<close> the lines printed, \<open>canvases\<close> the images allocated with \<^verbatim>\<open>Image.new\<close>, each
  with its size and the calls drawn on it.
\<close>

record world =
  dirs :: "string set"
  files :: "string \<rightharpoonup> nat list"
  stdout :: "string list"
  canvases :: "(int \<times> int \<times> draw_op list) list"

datatype result = Normal | Raise py_exc | SysExit int

text \<open>
  \<^verbatim>\<open>print(s)\<close> encodes \<open>s\<close> for standard output before it writes anything. A string of ASCII
  characters can always be encoded; for any other string the encoding of standard output
  decides, and \<^verbatim>\<open>print\<close> raises \<^verbatim>\<open>UnicodeEncodeError\<close> when it has no bytes for a character.
  A character is ASCII when its eighth bit is not set.
\<close>

definition is_ascii :: "string \<Rightarrow> bool" where
  "is_ascii s = list_all (\<lambda>c. \<not> digit7 c) s"

definition print :: "env \<Rightarrow> string \<Rightarrow> world \<Rightarrow> result \<times> world" where
  "print e s w =
     (if is_ascii s \<or> stdout_encodes e s then (Normal, w\<lparr>stdout := stdout w @ [s]\<rparr>)
      else (Raise UnicodeEncodeError, w))"

text \<open>
  \<^verbatim>\<open>os.path.dirname\<close> of \<^verbatim>\<open>posixpath\<close>:
  \<^verbatim>\<open>
  i = p.rfind('/') + 1
  head = p[:i]
  if head and head != '/' * len(head):
      head = head.rstrip('/')
  return head
  \<close>
\<close>

definition dirname :: "string \<Rightarrow> string" where
  "dirname p =
     (let head = rev (dropWhile (\<lambda>c. c \<noteq> CHR ''/'') (rev p)) in
      if head \<noteq> [] \<and> head \<noteq> replicate (length head) (CHR ''/'')
      then rev (dropWhile (\<lambda>c. c = CHR ''/'') (rev head))
      else head)"

lemma length_dirname_le: "length (dirname p) \<le> length p"
proof -
  have a: "length (dropWhile (\<lambda>c. c \<noteq> CHR ''/'') (rev p)) \<le> length p"
    using length_dropWhile_le [of "\<lambda>c. c \<noteq> CHR ''/''" "rev p"] by simp
  have b: "length (dropWhile (\<lambda>c. c = CHR ''/'') (rev (rev (dropWhile (\<lambda>c. c \<noteq> CHR ''/'') (rev p)))))
             \<le> length (dropWhile (\<lambda>c. c \<noteq> CHR ''/'') (rev p))"
    using length_dropWhile_le [of "\<lambda>c. c = CHR ''/''" "dropWhile (\<lambda>c. c \<noteq> CHR ''/'') (rev p)"]
    by simp
  show ?thesis
    using a b by (simp add: dirname_def Let_def)
qed

lemma dropWhile_same_length: "length (dropWhile P xs) = length xs \<Longrightarrow> dropWhile P xs = xs"
proof (cases xs)
  case Nil
  then show ?thesis by simp
next
  case (Cons x ys)
  assume len: "length (dropWhile P xs) = length xs"
  show ?thesis
  proof (cases "P x")
    case True
    have "length (dropWhile P ys) \<le> length ys"
      by (rule length_dropWhile_le)
    with len Cons True show ?thesis by simp
  next
    case False
    with Cons show ?thesis by simp
  qed
qed

lemma dirname_shorter: "dirname p \<noteq> p \<Longrightarrow> length (dirname p) < length p"
proof (rule ccontr)
  assume neq: "dirname p \<noteq> p" and "\<not> length (dirname p) < length p"
  then have eq: "length (dirname p) = length p"
    using length_dirname_le [of p] by simp
  define head where "head = dropWhile (\<lambda>c. c \<noteq> CHR ''/'') (rev p)"
  have h1: "length head \<le> length p"
    unfolding head_def using length_dropWhile_le [of "\<lambda>c. c \<noteq> CHR ''/''" "rev p"] by simp
  have h2: "length (dropWhile (\<lambda>c. c = CHR ''/'') head) \<le> length head"
    by (rule length_dropWhile_le)
  have d: "dirname p = rev (dropWhile (\<lambda>c. c = CHR ''/'') head) \<or> dirname p = rev head"
    by (simp add: dirname_def Let_def head_def)
  have len_head: "length head = length p"
    using d eq h1 h2 by auto
  then have head_eq: "head = rev p"
    unfolding head_def using dropWhile_same_length [of "\<lambda>c. c \<noteq> CHR ''/''" "rev p"] by simp
  from d show False
  proof
    assume c: "dirname p = rev (dropWhile (\<lambda>c. c = CHR ''/'') head)"
    with eq len_head have "length (dropWhile (\<lambda>c. c = CHR ''/'') head) = length head"
      by simp
    then have "dropWhile (\<lambda>c. c = CHR ''/'') head = head"
      by (rule dropWhile_same_length)
    with c head_eq neq show False by simp
  next
    assume "dirname p = rev head"
    with head_eq neq show False by simp
  qed
qed

text \<open>
  \<^verbatim>\<open>os.makedirs(name, exist_ok=True)\<close> creates \<open>name\<close> and, before it, every missing
  directory on the way to it: \<open>path_chain name\<close> lists them, \<open>name\<close> first. For the empty
  name the underlying \<^verbatim>\<open>mkdir('')\<close> fails with \<^verbatim>\<open>FileNotFoundError\<close>, which \<^verbatim>\<open>exist_ok\<close>
  does not absorb, since the empty name is no directory. An existing directory is left as
  it is. Directories are told apart by their names as written.
\<close>

function path_chain :: "string \<Rightarrow> string list" where
  "path_chain p = (if p = [] then [] else if dirname p = p then [p] else p # path_chain (dirname p))"
  by pat_completeness auto
termination
  by (relation "measure length") (auto simp: dirname_shorter)

declare path_chain.simps [simp del]

definition makedirs :: "env \<Rightarrow> string \<Rightarrow> world \<Rightarrow> result \<times> world" where
  "makedirs e name w =
     (if name = [] then (Raise FileNotFoundError, w)
      else if name \<in> dirs w then (Normal, w)
      else if may_mkdir e name then (Normal, w\<lparr>dirs := dirs w \<union> set (path_chain name)\<rparr>)
      else (Raise PermissionError, w))"

text \<open>
  \<^verbatim>\<open>image.save(output_path, "PNG", optimize=True)\<close> opens the file for writing: the directory
  part of the path, when there is one, has to exist, and the file has to be writable. The
  encoder then refuses an image without pixels (width or height 0) with \<^verbatim>\<open>ValueError\<close>;
  what such a failed save leaves at the output path is not modelled.
\<close>

definition image_save ::
  "env \<Rightarrow> string \<Rightarrow> int \<Rightarrow> int \<Rightarrow> draw_op list \<Rightarrow> world \<Rightarrow> result \<times> world" where
  "image_save e output_path width height ops w =
     (if dirname output_path \<noteq> [] \<and> dirname output_path \<notin> dirs w
      then (Raise FileNotFoundError, w)
      else if \<not> may_write e output_path then (Raise PermissionError, w)
      else if width = 0 \<or> height = 0 then (Raise ValueError, w)
      else (Normal, w\<lparr>files := (files w)(output_path \<mapsto> png_encode e width height ops)\<rparr>))"

text \<open>
  The message prefixes, as the bytes of the source file: each starts with characters
  outside ASCII.
\<close>

definition created_prefix :: string where
  "created_prefix =
     [CHR 0xC3, CHR 0xA2, CHR 0xC5, CHR 0x93, CHR 0xE2, CHR 0x80, CHR 0xA6]
       @ '' DMG background created: ''"

definition professional_prefix :: string where
  "professional_prefix =
     [CHR 0xC3, CHR 0xB0, CHR 0xC5, CHR 0xB8, CHR 0xC5, CHR 0xBD, CHR 0xC2, CHR 0xA8]
       @ '' Professional DMG background created at: ''"

definition usage_message :: string where
  "usage_message = ''Usage: python3 create_background.py <output_path>''"

definition pil_message :: string where
  "pil_message = ''PIL (Pillow) not available. Install with: pip install Pillow''"

text \<open>
  \<^verbatim>\<open>
  def create_dmg_background(output_path, width=540, height=300):
      image = Image.new("RGB", (width, height), "white")
      draw = ImageDraw.Draw(image)
      ...
      image.save(output_path, "PNG", optimize=True)
      print(f"... DMG background created: {output_path}")
  \<close>
  \<^verbatim>\<open>Image.new\<close> raises \<^verbatim>\<open>ValueError\<close> for a negative width or height, before anything is
  drawn. None of the calls is inside a \<^verbatim>\<open>try\<close>: an exception of the save or of the print
  leaves the function.
\<close>

definition create_dmg_background ::
  "env \<Rightarrow> string \<Rightarrow> int \<Rightarrow> int \<Rightarrow> world \<Rightarrow> result \<times> world" where
  "create_dmg_background e output_path width height w =
     (if width < 0 \<or> height < 0 then (Raise ValueError, w)
      else
        (let ops = background_ops e width height;
             w1 = w\<lparr>canvases := canvases w @ [(width, height, ops)]\<rparr>
         in case image_save e output_path width height ops w1 of
              (Normal, w2) \<Rightarrow> print e (created_prefix @ output_path) w2
            | (r, w2) \<Rightarrow> (r, w2)))"

text \<open>
  \<^verbatim>\<open>
  def main():
      if len(sys.argv) != 2:
          print("Usage: python3 create_background.py <output_path>")
          sys.exit(1)
      output_path = sys.argv[1]
      os.makedirs(os.path.dirname(output_path), exist_ok=True)
      create_dmg_background(output_path)
      print(f"... Professional DMG background created at: {output_path}")
  \<close>
\<close>

definition main :: "env \<Rightarrow> string list \<Rightarrow> world \<Rightarrow> result \<times> world" where
  "main e argv w =
     (if length argv \<noteq> 2 then
        (case print e usage_message w of
           (Normal, w1) \<Rightarrow> (SysExit 1, w1)
         | (r, w1) \<Rightarrow> (r, w1))
      else
        (let output_path = argv ! 1 in
         case makedirs e (dirname output_path) w of
           (Normal, w1) \<Rightarrow>
             (case create_dmg_background e output_path 540 300 w1 of
                (Normal, w2) \<Rightarrow> print e (professional_prefix @ output_path) w2
              | (r, w2) \<Rightarrow> (r, w2))
         | (r, w1) \<Rightarrow> (r, w1)))"

text \<open>
  The module's first statement:
  \<^verbatim>\<open>
  try:
      from PIL import Image, ImageDraw, ImageFont
      import sys
      import os
  except ImportError:
      print("PIL (Pillow) not available. Install with: pip install Pillow")
      sys.exit(1)
  \<close>
  When the first import raises, the two imports after it have not run, so the handler
  runs with the names bound so far, \<open>bound_at_import_failure\<close>: a name that is not among
  them raises \<^verbatim>\<open>NameError\<close> where it is read.
\<close>

definition bound_at_import_failure :: "string list" where
  "bound_at_import_failure = []"

definition import_block :: "env \<Rightarrow> world \<Rightarrow> result \<times> world" where
  "import_block e w =
     (if pil_available e then (Normal, w)
      else
        (case print e pil_message w of
           (Normal, w1) \<Rightarrow>
             if ''sys'' \<in> set bound_at_import_failure then (SysExit 1, w1)
             else (Raise NameError, w1)
         | (r, w1) \<Rightarrow> (r, w1)))"

text \<open>
  The exit status of the interpreter: 0 when the script runs to its end, the argument of
  \<^verbatim>\<open>sys.exit\<close>, and 1 after an exception nobody caught.
\<close>

fun exit_status :: "result \<Rightarrow> int" where
  "exit_status Normal = 0"
| "exit_status (SysExit n) = n"
| "exit_status (Raise exc) = 1"

definition run_script :: "env \<Rightarrow> string list \<Rightarrow> world \<Rightarrow> result \<times> world" where
  "run_script e argv w =
     (case import_block e w of
        (Normal, w1) \<Rightarrow> main e argv w1
      | (r, w1) \<Rightarrow> (r, w1))"

subsection \<open>Environments and inputs the theorems are evaluated on\<close>

text \<open>No candidate font file exists; every string measures 6 pixels per character.\<close>

definition env_no_fonts :: env where
  "env_no_fonts =
     \<lparr>pil_available = True,
      os_path_exists = (\<lambda>p. False),
      truetype = (\<lambda>p s. RaisesOSError),
      textbbox = (\<lambda>f s. (0, 0, 6 * int (length s), 11)),
      may_mkdir = (\<lambda>p. True),
      may_write = (\<lambda>p. True),
      png_encode = (\<lambda>w h ops. []),
      stdout_encodes = (\<lambda>s. True)\<rparr>"

text \<open>Every candidate exists and loads; a string measures 9 pixels per character.\<close>

definition env_all_fonts :: env where
  "env_all_fonts =
     \<lparr>pil_available = True,
      os_path_exists = (\<lambda>p. True),
      truetype = (\<lambda>p s. Loads),
      textbbox = (\<lambda>f s. (1, 2, 1 + 9 * int (length s), 20)),
      may_mkdir = (\<lambda>p. True),
      may_write = (\<lambda>p. True),
      png_encode = (\<lambda>w h ops. []),
      stdout_encodes = (\<lambda>s. True)\<rparr>"

definition world_empty :: world where
  "world_empty = \<lparr>dirs = {}, files = Map.empty, stdout = [], canvases = []\<rparr>"

subsection \<open>Cases of font resolution\<close>

text \<open>
  A candidate is passed over when its file does not exist or a \<^verbatim>\<open>truetype\<close> call on it raises
  \<^verbatim>\<open>OSError\<close>; it succeeds when the file exists and loads at both sizes; it breaks the
  search off when a \<^verbatim>\<open>truetype\<close> call on it raises any other exception.
\<close>

definition passed_over :: "env \<Rightarrow> string \<Rightarrow> bool" where
  "passed_over e p =
     (\<not> os_path_exists e p \<or> truetype e p 24 = RaisesOSError
      \<or> (truetype e p 24 = Loads \<and> truetype e p 14 = RaisesOSError))"

definition loads_both :: "env \<Rightarrow> string \<Rightarrow> bool" where
  "loads_both e p = (os_path_exists e p \<and> truetype e p 24 = Loads \<and> truetype e p 14 = Loads)"

definition breaks_off :: "env \<Rightarrow> string \<Rightarrow> bool" where
  "breaks_off e p =
     (os_path_exists e p
      \<and> (truetype e p 24 = RaisesOther \<or> (truetype e p 24 = Loads \<and> truetype e p 14 = RaisesOther)))"

definition not_loaded_24 :: "env \<Rightarrow> string \<Rightarrow> bool" where
  "not_loaded_24 e p = (\<not> os_path_exists e p \<or> truetype e p 24 = RaisesOSError)"

text \<open>
  The first candidate raises an exception other than \<^verbatim>\<open>OSError\<close>; the second and third
  exist and load.
\<close>

definition env_first_raises :: env where
  "env_first_raises =
     \<lparr>pil_available = True,
      os_path_exists = (\<lambda>p. True),
      truetype = (\<lambda>p s. if p = ''/System/Library/Fonts/Helvetica.ttc'' then RaisesOther else Loads),
      textbbox = (\<lambda>f s. (0, 0, 6 * int (length s), 11)),
      may_mkdir = (\<lambda>p. True),
      may_write = (\<lambda>p. True),
      png_encode = (\<lambda>w h ops. []),
      stdout_encodes = (\<lambda>s. True)\<rparr>"

text \<open>
  The first candidate does not exist, the second raises \<^verbatim>\<open>OSError\<close>, the third exists and
  loads.
\<close>

definition env_third_font :: env where
  "env_third_font =
     \<lparr>pil_available = True,
      os_path_exists = (\<lambda>p. p \<noteq> ''/System/Library/Fonts/Helvetica.ttc''),
      truetype = (\<lambda>p s. if p = ''/Library/Fonts/Arial.ttf'' then Loads else RaisesOSError),
      textbbox = (\<lambda>f s. (0, 0, 6 * int (length s), 11)),
      may_mkdir = (\<lambda>p. True),
      may_write = (\<lambda>p. True),
      png_encode = (\<lambda>w h ops. []),
      stdout_encodes = (\<lambda>s. True)\<rparr>"

text \<open>
  The first candidate exists and loads at size 24, its load at size 14 raises \<^verbatim>\<open>OSError\<close>;
  the other two do not exist.
\<close>

definition env_partial_load :: env where
  "env_partial_load =
     \<lparr>pil_available = True,
      os_path_exists = (\<lambda>p. p = ''/System/Library/Fonts/Helvetica.ttc''),
      truetype = (\<lambda>p s. if s = 24 then Loads else RaisesOSError),
      textbbox = (\<lambda>f s. (0, 0, 6 * int (length s), 11)),
      may_mkdir = (\<lambda>p. True),
      may_write = (\<lambda>p. True),
      png_encode = (\<lambda>w h ops. []),
      stdout_encodes = (\<lambda>s. True)\<rparr>"

subsection \<open>Coordinates on the canvas\<close>

text \<open>
  \<open>in_canvas\<close> is the half-open pixel range \<open>[0, width) \<times> [0, height)\<close>; \<open>on_canvas_edge\<close> lets
  \<open>x\<close> reach \<open>width\<close>.
\<close>

fun in_canvas :: "int \<Rightarrow> int \<Rightarrow> point \<Rightarrow> bool" where
  "in_canvas width height (x, y) = (0 \<le> x \<and> x < width \<and> 0 \<le> y \<and> y < height)"

fun on_canvas_edge :: "int \<Rightarrow> int \<Rightarrow> point \<Rightarrow> bool" where
  "on_canvas_edge width height (x, y) = (0 \<le> x \<and> x \<le> width \<and> 0 \<le> y \<and> y < height)"

definition all_in_canvas :: "int \<Rightarrow> int \<Rightarrow> draw_op list \<Rightarrow> bool" where
  "all_in_canvas width height ops = list_all (\<lambda>op. list_all (in_canvas width height) (coords op)) ops"

definition all_on_canvas_edge :: "int \<Rightarrow> int \<Rightarrow> draw_op list \<Rightarrow> bool" where
  "all_on_canvas_edge width height ops =
     list_all (\<lambda>op. list_all (on_canvas_edge width height) (coords op)) ops"

text \<open>No candidate font exists; every string measures 600 pixels, wider than the canvas.\<close>

definition env_wide_text :: env where
  "env_wide_text =
     \<lparr>pil_available = True,
      os_path_exists = (\<lambda>p. False),
      truetype = (\<lambda>p s. RaisesOSError),
      textbbox = (\<lambda>f s. (0, 0, 600, 11)),
      may_mkdir = (\<lambda>p. True),
      may_write = (\<lambda>p. True),
      png_encode = (\<lambda>w h ops. []),
      stdout_encodes = (\<lambda>s. True)\<rparr>"

text \<open>Pillow cannot be imported.\<close>

definition env_no_pil :: env where
  "env_no_pil =
     \<lparr>pil_available = False,
      os_path_exists = (\<lambda>p. True),
      truetype = (\<lambda>p s. Loads),
      textbbox = (\<lambda>f s. (0, 0, 6 * int (length s), 11)),
      may_mkdir = (\<lambda>p. True),
      may_write = (\<lambda>p. True),
      png_encode = (\<lambda>w h ops. []),
      stdout_encodes = (\<lambda>s. True)\<rparr>"

text \<open>
  As \<open>env_no_fonts\<close>, with a standard output that encodes ASCII only (as under the \<^verbatim>\<open>C\<close>
  locale).
\<close>

definition env_ascii_stdout :: env where
  "env_ascii_stdout =
     \<lparr>pil_available = True,
      os_path_exists = (\<lambda>p. False),
      truetype = (\<lambda>p s. RaisesOSError),
      textbbox = (\<lambda>f s. (0, 0, 6 * int (length s), 11)),
      may_mkdir = (\<lambda>p. True),
      may_write = (\<lambda>p. True),
      png_encode = (\<lambda>w h ops. []),
      stdout_encodes = (\<lambda>s. False)\<rparr>"

section \<open>Properties\<close>

subsection \<open>The gradient\<close>

lemma gradient_value_300: "0 \<le> y \<Longrightarrow> gradient_value y 300 = 240 + y div 20"
proof -
  assume y: "0 \<le> y"
  have nonneg: "(0::rat) \<le> 240 + of_int (15 * y) / of_int 300"
    using y by simp
  have "\<lfloor>(240::rat) + of_int (15 * y) / of_int 300\<rfloor> = 240 + \<lfloor>(of_int (15 * y) :: rat) / of_int 300\<rfloor>"
    by (metis floor_add_int add.commute of_int_numeral)
  also have "\<dots> = 240 + (15 * y) div 300"
    by (simp only: floor_divide_of_int_eq)
  also have "\<dots> = 240 + y div 20"
    by simp
  finally show ?thesis
    using nonneg by (simp add: gradient_value_def py_int_def)
qed

lemma gradient_value_mono:
  assumes "0 \<le> y" "y \<le> y'"
  shows "gradient_value y 300 \<le> gradient_value y' 300"
proof -
  have "y div 20 \<le> y' div 20"
    using assms by (simp add: zdiv_mono1)
  then show ?thesis
    using assms by (simp add: gradient_value_300)
qed

lemma length_gradient_pass: "length (gradient_pass width height) = nat height"
  by (simp add: gradient_pass_def)

lemma nth_gradient_pass:
  assumes "0 \<le> y" "y < height"
  shows "gradient_pass width height ! nat y = gradient_line width height y"
proof -
  have "nat y < length [0..height - 1]"
    using assms by simp
  moreover have "[0..height - 1] ! nat y = y"
    using assms nth_upto [of 0 "nat y" "height - 1"] by simp
  ultimately show ?thesis
    by (simp add: gradient_pass_def)
qed

lemma take_gradient_pass:
  "take (nat height) (background_ops e width height) = gradient_pass width height"
  by (simp add: background_ops_def length_gradient_pass)

text \<open>
  Claim C1. On the 540 x 300 canvas the first 300 drawing calls are the gradient pass. For
  every scanline \<open>y\<close> in \<open>[0, 300)\<close> the call number \<open>y\<close> draws the line from \<open>(0, y)\<close> to
  \<open>(540, y)\<close> in the colour \<open>(g - 5, g, g)\<close>, where \<open>g = int(240 + 15 * y / 300)\<close>, which is
  \<open>240 + y div 20\<close>. Green and blue are non-decreasing in \<open>y\<close> over the whole range, and
  the colour of scanline 0 differs from the colour of scanline 299.
\<close>

theorem gradient_scanlines:
  "take 300 (background_ops e 540 300) = gradient_pass 540 300
   \<and> length (gradient_pass 540 300) = 300
   \<and> (\<forall>y. 0 \<le> y \<and> y < 300 \<longrightarrow>
         gradient_pass 540 300 ! nat y =
           Line [(0, y), (540, y)]
             (gradient_value y 300 - 5, gradient_value y 300, gradient_value y 300) 0
         \<and> gradient_value y 300 = py_int (240 + 15 * of_int y / 300)
         \<and> gradient_value y 300 = 240 + y div 20)
   \<and> (\<forall>y y'. 0 \<le> y \<and> y \<le> y' \<and> y' < 300 \<longrightarrow>
         gradient_value y 300 \<le> gradient_value y' 300)
   \<and> gradient_color 0 300 \<noteq> gradient_color 299 300"
proof -
  have a: "take 300 (background_ops e 540 300) = gradient_pass 540 300"
    using take_gradient_pass [of 300 e 540] by simp
  have b: "length (gradient_pass 540 300) = 300"
    by (simp add: length_gradient_pass)
  have c: "gradient_pass 540 300 ! nat y =
             Line [(0, y), (540, y)]
               (gradient_value y 300 - 5, gradient_value y 300, gradient_value y 300) 0
           \<and> gradient_value y 300 = py_int (240 + 15 * of_int y / 300)
           \<and> gradient_value y 300 = 240 + y div 20"
    if "0 \<le> y \<and> y < 300" for y
  proof -
    have "gradient_pass 540 300 ! nat y = gradient_line 540 300 y"
      using that by (simp add: nth_gradient_pass)
    moreover have "gradient_value y 300 = py_int (240 + 15 * of_int y / 300)"
      by (simp add: gradient_value_def)
    moreover have "gradient_value y 300 = 240 + y div 20"
      using that by (simp add: gradient_value_300)
    ultimately show ?thesis
      by (simp add: gradient_line_def gradient_color_def)
  qed
  have d: "gradient_value y 300 \<le> gradient_value y' 300"
    if "0 \<le> y \<and> y \<le> y' \<and> y' < 300" for y y'
    using that by (simp add: gradient_value_mono)
  have e: "gradient_color 0 300 \<noteq> gradient_color 299 300"
    by (simp add: gradient_color_def gradient_value_300)
  from a b c d e show ?thesis
    by blast
qed

theorem gradient_scanlines_witness:
  "gradient_pass 540 300 ! 150 = Line [(0, 150), (540, 150)] (242, 247, 247) 0
   \<and> gradient_value 0 300 = 240
   \<and> gradient_value 299 300 = 254
   \<and> gradient_value 0 300 \<le> gradient_value 299 300"
proof -
  note t = gradient_scanlines [of env_no_fonts]
  from t have c: "\<forall>y. 0 \<le> y \<and> y < 300 \<longrightarrow>
         gradient_pass 540 300 ! nat y =
           Line [(0, y), (540, y)]
             (gradient_value y 300 - 5, gradient_value y 300, gradient_value y 300) 0
         \<and> gradient_value y 300 = py_int (240 + 15 * of_int y / 300)
         \<and> gradient_value y 300 = 240 + y div 20"
    by blast
  from t have d: "\<forall>y y'. 0 \<le> y \<and> y \<le> y' \<and> y' < 300 \<longrightarrow>
         gradient_value y 300 \<le> gradient_value y' 300"
    by blast
  from c [rule_format, of 150] have "gradient_pass 540 300 ! 150 =
      Line [(0, 150), (540, 150)] (242, 247, 247) 0"
    by simp
  moreover from c [rule_format, of 0] have "gradient_value 0 300 = 240"
    by simp
  moreover from c [rule_format, of 299] have "gradient_value 299 300 = 254"
    by simp
  moreover from d [rule_format, of 0 299] have "gradient_value 0 300 \<le> gradient_value 299 300"
    by simp
  ultimately show ?thesis
    by blast
qed

subsection \<open>The two text blocks\<close>

lemma centered_within_half:
  "\<bar>(of_int width - of_int tw) / 2 - of_int ((width - tw) div 2)\<bar> \<le> (1 / 2 :: rat)"
proof -
  define d where "d = width - tw"
  have "2 * (d div 2) + d mod 2 = d"
    by simp
  then have "(of_int (2 * (d div 2) + d mod 2) :: rat) = of_int d"
    by (rule arg_cong)
  then have e: "2 * (of_int (d div 2) :: rat) + of_int (d mod 2) = of_int d"
    by (simp only: of_int_add of_int_mult of_int_numeral)
  have m: "(0 :: rat) \<le> of_int (d mod 2)" "(of_int (d mod 2) :: rat) \<le> 1"
    by simp_all
  have "\<bar>(of_int d :: rat) / 2 - of_int (d div 2)\<bar> \<le> 1 / 2"
    using e m by linarith
  then show ?thesis
    unfolding d_def by (simp only: of_int_diff)
qed

lemma nth_background_ops_text:
  "background_ops e 540 300 ! 300 = text_pass e 540 ! 0"
  "background_ops e 540 300 ! 301 = text_pass e 540 ! 1"
  by (simp_all add: background_ops_def nth_append length_gradient_pass text_pass_def)

text \<open>
  Claim C2. The title and the instruction line are the drawing calls number 300 and 301, at
  the heights 30 and 65. Whatever box the font measurement returns for the string, with
  \<open>textWidth\<close> its right edge minus its left edge, the \<open>x\<close> coordinate the text is drawn at is
  within one pixel (indeed within half a pixel) of \<open>(width - textWidth) / 2\<close>.
\<close>

theorem text_centered:
  "background_ops e 540 300 ! 300 =
     Text (title_x e 540, 30) title_text accent_color (fst (resolve_fonts e))
   \<and> background_ops e 540 300 ! 301 =
     Text (instruction_x e 540, 65) instruction_text text_color (snd (resolve_fonts e))
   \<and> title_width e =
       (case textbbox e (fst (resolve_fonts e)) title_text of (x0, y0, x1, y1) \<Rightarrow> x1 - x0)
   \<and> instruction_width e =
       (case textbbox e (snd (resolve_fonts e)) instruction_text of (x0, y0, x1, y1) \<Rightarrow> x1 - x0)
   \<and> \<bar>(of_int width - of_int (title_width e)) / 2 - of_int (title_x e width)\<bar> \<le> (1 :: rat)
   \<and> \<bar>(of_int width - of_int (instruction_width e)) / 2 - of_int (instruction_x e width)\<bar>
       \<le> (1 :: rat)"
proof -
  have "\<bar>(of_int width - of_int (title_width e)) / 2 - of_int (title_x e width)\<bar> \<le> (1 / 2 :: rat)"
    unfolding title_x_def by (rule centered_within_half)
  then have "\<bar>(of_int width - of_int (title_width e)) / 2 - of_int (title_x e width)\<bar> \<le> (1 :: rat)"
    by linarith
  moreover have
    "\<bar>(of_int width - of_int (instruction_width e)) / 2 - of_int (instruction_x e width)\<bar>
       \<le> (1 / 2 :: rat)"
    unfolding instruction_x_def by (rule centered_within_half)
  then have
    "\<bar>(of_int width - of_int (instruction_width e)) / 2 - of_int (instruction_x e width)\<bar>
       \<le> (1 :: rat)"
    by linarith
  ultimately show ?thesis
    by (simp add: nth_background_ops_text text_pass_def title_width_def instruction_width_def
        text_width_def)
qed

theorem text_centered_witness:
  "background_ops env_no_fonts 540 300 ! 300 =
     Text (216, 30) ''BangoCat for macOS'' (70, 130, 180) (Some DefaultFont)
   \<and> background_ops env_all_fonts 540 300 ! 301 =
     Text (22, 65) ''Drag BangoCat.app to the Applications folder to install'' (80, 80, 80)
       (Some (TrueTypeFont ''/System/Library/Fonts/Helvetica.ttc'' 14))
   \<and> instruction_width env_all_fonts = 495
   \<and> \<bar>(540 - 495) / 2 - 22\<bar> \<le> (1 :: rat)"
proof -
  have r1: "resolve_fonts env_no_fonts = (Some DefaultFont, Some DefaultFont)"
    by (simp add: resolve_fonts_def font_paths_def env_no_fonts_def)
  have r2: "resolve_fonts env_all_fonts =
      (Some (TrueTypeFont ''/System/Library/Fonts/Helvetica.ttc'' 24),
       Some (TrueTypeFont ''/System/Library/Fonts/Helvetica.ttc'' 14))"
    by (simp add: resolve_fonts_def font_paths_def env_all_fonts_def)
  have w1: "title_width env_no_fonts = 108"
    by (simp add: title_width_def text_width_def r1 title_text_def) (simp add: env_no_fonts_def)
  have w2: "instruction_width env_all_fonts = 495"
    by (simp add: instruction_width_def text_width_def r2 instruction_text_def)
       (simp add: env_all_fonts_def)
  show ?thesis
    using text_centered [of env_no_fonts 540] text_centered [of env_all_fonts 540]
    by (simp add: r1 r2 w1 w2 title_x_def instruction_x_def title_text_def instruction_text_def
        accent_color_def text_color_def)
qed

subsection \<open>The tail\<close>

lemma tail_offset: "0 \<le> i \<Longrightarrow> py_int (5 * (of_int i / 20) ^ 2) = i * i div 80"
proof -
  assume i: "0 \<le> i"
  have eq: "5 * ((of_int i :: rat) / 20) ^ 2 = of_int (i * i) / of_int 80"
    by (simp add: power2_eq_square)
  have "(0 :: rat) \<le> 5 * (of_int i / 20) ^ 2"
    by simp
  then have "py_int (5 * (of_int i / 20) ^ 2) = \<lfloor>5 * ((of_int i :: rat) / 20) ^ 2\<rfloor>"
    by (simp add: py_int_def)
  also have "\<dots> = \<lfloor>(of_int (i * i) :: rat) / of_int 80\<rfloor>"
    by (simp only: eq)
  also have "\<dots> = i * i div 80"
    by (simp only: floor_divide_of_int_eq)
  finally show ?thesis .
qed

lemma tail_y_closed: "0 \<le> i \<Longrightarrow> tail_y i = 210 + i * i div 80"
  by (simp add: tail_y_def tail_offset cat_y_def)

lemma tail_y_mono:
  assumes "0 \<le> i" "i \<le> j"
  shows "tail_y i \<le> tail_y j"
proof -
  have "i * i \<le> j * j"
    using assms by (simp add: mult_mono)
  then have "i * i div 80 \<le> j * j div 80"
    by (simp add: zdiv_mono1)
  then show ?thesis
    using assms by (simp add: tail_y_closed)
qed

lemma nth_tail_pass:
  assumes "0 \<le> i" "i < 20"
  shows "tail_pass ! nat i = tail_ellipse i"
proof -
  have "nat i < length [0..(19::int)]"
    using assms by simp
  moreover have "[0..(19::int)] ! nat i = i"
    using assms nth_upto [of 0 "nat i" 19] by simp
  ultimately show ?thesis
    by (simp add: tail_pass_def)
qed

lemma length_tail_pass: "length tail_pass = 20"
  by (simp add: tail_pass_def)

lemma tail_pass_in_background_ops:
  "take 20 (drop 308 (background_ops e 540 300)) = tail_pass"
  by (simp add: background_ops_def length_gradient_pass text_pass_def arrow_pass_def cat_pass_def
      length_tail_pass)

text \<open>
  Claim C9, amended. The tail ellipses are the drawing calls number 308 to 327. For every \<open>i\<close>
  in \<open>[0, 20)\<close> the \<open>i\<close>-th one is drawn with the bounding box
  \<open>[tail_x, tail_y, tail_x + 4, tail_y + 8]\<close>, where \<open>tail_x = 45 + i\<close> and
  \<open>tail_y = 210 + int(5 * (i / 20)\<^sup>2)\<close>: the quadratic offset \<open>5 * (i / 20)\<^sup>2\<close> truncated to an
  integer, which is \<open>i\<^sup>2 div 80\<close>, on the base \<open>cat_y + 10 = 210\<close>. The vertical position is
  non-decreasing in \<open>i\<close>.
\<close>

theorem tail_curve:
  "take 20 (drop 308 (background_ops e 540 300)) = tail_pass
   \<and> length tail_pass = 20
   \<and> (\<forall>i. 0 \<le> i \<and> i < 20 \<longrightarrow>
         tail_pass ! nat i = Ellipse (45 + i) (tail_y i) (45 + i + 4) (tail_y i + 8) cat_color
         \<and> tail_y i = cat_y + 10 + \<lfloor>5 * (of_int i / 20 :: rat) ^ 2\<rfloor>
         \<and> tail_y i = 210 + i * i div 80)
   \<and> (\<forall>i j. 0 \<le> i \<and> i \<le> j \<and> j < 20 \<longrightarrow> tail_y i \<le> tail_y j)"
proof -
  have c: "tail_pass ! nat i = Ellipse (45 + i) (tail_y i) (45 + i + 4) (tail_y i + 8) cat_color
           \<and> tail_y i = cat_y + 10 + \<lfloor>5 * (of_int i / 20 :: rat) ^ 2\<rfloor>
           \<and> tail_y i = 210 + i * i div 80"
    if "0 \<le> i \<and> i < 20" for i
  proof -
    have "tail_pass ! nat i = tail_ellipse i"
      using that by (simp add: nth_tail_pass)
    moreover have "tail_y i = cat_y + 10 + \<lfloor>5 * (of_int i / 20 :: rat) ^ 2\<rfloor>"
      by (simp add: tail_y_def py_int_def)
    moreover have "tail_y i = 210 + i * i div 80"
      using that by (simp add: tail_y_closed)
    ultimately show ?thesis
      by (simp add: tail_ellipse_def tail_x_def cat_x_def)
  qed
  have d: "tail_y i \<le> tail_y j" if "0 \<le> i \<and> i \<le> j \<and> j < 20" for i j
    using that by (simp add: tail_y_mono)
  from c d tail_pass_in_background_ops [of e] length_tail_pass show ?thesis
    by blast
qed

theorem tail_curve_witness:
  "tail_pass ! 13 = Ellipse 58 212 62 220 (200, 200, 200)
   \<and> tail_y 0 = 210 \<and> tail_y 19 = 214 \<and> tail_y 0 \<le> tail_y 19"
proof -
  note t = tail_curve [of env_no_fonts]
  from t have c: "\<forall>i. 0 \<le> i \<and> i < 20 \<longrightarrow>
         tail_pass ! nat i = Ellipse (45 + i) (tail_y i) (45 + i + 4) (tail_y i + 8) cat_color
         \<and> tail_y i = cat_y + 10 + \<lfloor>5 * (of_int i / 20 :: rat) ^ 2\<rfloor>
         \<and> tail_y i = 210 + i * i div 80"
    by blast
  from t have d: "\<forall>i j. 0 \<le> i \<and> i \<le> j \<and> j < 20 \<longrightarrow> tail_y i \<le> tail_y j"
    by blast
  from c [rule_format, of 13] have "tail_pass ! 13 = Ellipse 58 212 62 220 (200, 200, 200)"
    by (simp add: cat_color_def)
  moreover from c [rule_format, of 0] have "tail_y 0 = 210"
    by simp
  moreover from c [rule_format, of 19] have "tail_y 19 = 214"
    by simp
  moreover from d [rule_format, of 0 19] have "tail_y 0 \<le> tail_y 19"
    by simp
  ultimately show ?thesis
    by blast
qed

text \<open>
  The claim as written, \<open>tail_y = base + 5 * (i / 20)\<^sup>2\<close> without the truncation, fails at
  \<open>i = 1\<close>: the script draws at 210, the formula gives 210.0125.
\<close>

theorem tail_curve_counterexample:
  "tail_y 1 = cat_y + 10 \<and> of_int (tail_y 1) \<noteq> (of_int (cat_y + 10) :: rat) + 5 * (1 / 20) ^ 2"
proof -
  have "tail_y 1 = 210"
    using tail_y_closed [of 1] by simp
  then show ?thesis
    by (simp add: cat_y_def)
qed

subsection \<open>Font resolution\<close>

lemma load_fonts_first_success:
  assumes "\<forall>q \<in> set pre. passed_over e q" "loads_both e p"
  shows "load_fonts e (pre @ p # rest) st = Inr (Some (TrueTypeFont p 24), Some (TrueTypeFont p 14))"
  using assms
proof (induction pre arbitrary: st)
  case Nil
  then show ?case
    by (cases st) (simp add: loads_both_def)
next
  case (Cons q pre)
  then show ?case
    by (cases st) (auto simp: passed_over_def split: load_result.splits)
qed

lemma load_fonts_breaks_off:
  assumes "\<forall>q \<in> set pre. passed_over e q" "breaks_off e p"
  shows "load_fonts e (pre @ p # rest) st = Inl OtherException"
  using assms
proof (induction pre arbitrary: st)
  case Nil
  then show ?case
    by (cases st) (auto simp: breaks_off_def split: load_result.splits)
next
  case (Cons q pre)
  then show ?case
    by (cases st) (auto simp: passed_over_def split: load_result.splits)
qed

lemma load_fonts_none_loaded:
  assumes "\<forall>q \<in> set ps. not_loaded_24 e q"
  shows "load_fonts e ps st = Inr st"
  using assms
proof (induction ps arbitrary: st)
  case Nil
  then show ?case
    by (cases st) simp
next
  case (Cons q ps)
  then show ?case
    by (cases st) (auto simp: not_loaded_24_def split: load_result.splits)
qed

lemma resolve_fonts_title: "fst (resolve_fonts e) \<noteq> None"
  by (auto simp: resolve_fonts_def split: sum.splits)

lemma font_paths_split:
  assumes "k < length font_paths"
  shows "font_paths = take k font_paths @ font_paths ! k # drop (Suc k) font_paths"
  using assms by (rule id_take_nth_drop)

text \<open>
  Claim C3, amended. Font resolution goes through the fixed priority list in order and
  passes over, silently, every candidate that does not exist or whose load raises
  \<^verbatim>\<open>OSError\<close>/\<^verbatim>\<open>IOError\<close>. When it reaches a candidate that exists and loads at the sizes 24 and
  14, that one file gives both handles. When it reaches a candidate whose load raises any
  other exception, the search ends there and the default font is used for both handles,
  whatever the later candidates would do. When no candidate exists and loads at size 24, the
  default font is used for both handles. No failure reaches the caller: the title handle is
  always a font, and an exception that leaves the loop gives the default font for both.
\<close>

theorem font_resolution:
  "(\<forall>k. k < length font_paths \<and> (\<forall>q \<in> set (take k font_paths). passed_over e q)
        \<and> loads_both e (font_paths ! k) \<longrightarrow>
      resolve_fonts e =
        (Some (TrueTypeFont (font_paths ! k) 24), Some (TrueTypeFont (font_paths ! k) 14)))
   \<and> (\<forall>k. k < length font_paths \<and> (\<forall>q \<in> set (take k font_paths). passed_over e q)
        \<and> breaks_off e (font_paths ! k) \<longrightarrow>
      resolve_fonts e = (Some DefaultFont, Some DefaultFont))
   \<and> ((\<forall>q \<in> set font_paths. not_loaded_24 e q) \<longrightarrow>
      resolve_fonts e = (Some DefaultFont, Some DefaultFont))
   \<and> (\<forall>exc. load_fonts e font_paths (None, None) = Inl exc \<longrightarrow>
      resolve_fonts e = (Some DefaultFont, Some DefaultFont))
   \<and> fst (resolve_fonts e) \<noteq> None"
proof -
  have a: "resolve_fonts e =
        (Some (TrueTypeFont (font_paths ! k) 24), Some (TrueTypeFont (font_paths ! k) 14))"
    if "k < length font_paths \<and> (\<forall>q \<in> set (take k font_paths). passed_over e q)
        \<and> loads_both e (font_paths ! k)" for k
  proof -
    have "load_fonts e (take k font_paths @ font_paths ! k # drop (Suc k) font_paths) (None, None)
        = Inr (Some (TrueTypeFont (font_paths ! k) 24), Some (TrueTypeFont (font_paths ! k) 14))"
      using that by (intro load_fonts_first_success) auto
    then have "load_fonts e font_paths (None, None)
        = Inr (Some (TrueTypeFont (font_paths ! k) 24), Some (TrueTypeFont (font_paths ! k) 14))"
      using that font_paths_split [of k] by simp
    then show ?thesis
      by (simp add: resolve_fonts_def)
  qed
  have b: "resolve_fonts e = (Some DefaultFont, Some DefaultFont)"
    if "k < length font_paths \<and> (\<forall>q \<in> set (take k font_paths). passed_over e q)
        \<and> breaks_off e (font_paths ! k)" for k
  proof -
    have "load_fonts e (take k font_paths @ font_paths ! k # drop (Suc k) font_paths) (None, None)
        = Inl OtherException"
      using that by (intro load_fonts_breaks_off) auto
    then have "load_fonts e font_paths (None, None) = Inl OtherException"
      using that font_paths_split [of k] by simp
    then show ?thesis
      by (simp add: resolve_fonts_def)
  qed
  have c: "resolve_fonts e = (Some DefaultFont, Some DefaultFont)"
    if "\<forall>q \<in> set font_paths. not_loaded_24 e q"
    using that by (simp add: resolve_fonts_def load_fonts_none_loaded)
  have d: "resolve_fonts e = (Some DefaultFont, Some DefaultFont)"
    if "load_fonts e font_paths (None, None) = Inl exc" for exc
    using that by (simp add: resolve_fonts_def)
  from a b c d resolve_fonts_title [of e] show ?thesis
    by blast
qed

theorem font_resolution_witness:
  "resolve_fonts env_third_font =
     (Some (TrueTypeFont ''/Library/Fonts/Arial.ttf'' 24),
      Some (TrueTypeFont ''/Library/Fonts/Arial.ttf'' 14))
   \<and> resolve_fonts env_first_raises = (Some DefaultFont, Some DefaultFont)
   \<and> resolve_fonts env_no_fonts = (Some DefaultFont, Some DefaultFont)"
proof -
  have l: "length font_paths = 3" "font_paths ! 2 = ''/Library/Fonts/Arial.ttf''"
    "font_paths ! 0 = ''/System/Library/Fonts/Helvetica.ttc''"
    "take 2 font_paths = [''/System/Library/Fonts/Helvetica.ttc'', ''/System/Library/Fonts/Arial.ttf'']"
    by (simp_all add: font_paths_def)
  have p1: "2 < length font_paths \<and> (\<forall>q \<in> set (take 2 font_paths). passed_over env_third_font q)
        \<and> loads_both env_third_font (font_paths ! 2)"
    by (simp add: l passed_over_def loads_both_def env_third_font_def)
  have p2: "0 < length font_paths \<and> (\<forall>q \<in> set (take 0 font_paths). passed_over env_first_raises q)
        \<and> breaks_off env_first_raises (font_paths ! 0)"
    by (simp add: l breaks_off_def env_first_raises_def)
  have p3: "\<forall>q \<in> set font_paths. not_loaded_24 env_no_fonts q"
    by (simp add: not_loaded_24_def env_no_fonts_def)
  from font_resolution [of env_third_font] p1
  have "resolve_fonts env_third_font =
      (Some (TrueTypeFont (font_paths ! 2) 24), Some (TrueTypeFont (font_paths ! 2) 14))"
    by blast
  moreover from font_resolution [of env_first_raises] p2
  have "resolve_fonts env_first_raises = (Some DefaultFont, Some DefaultFont)"
    by blast
  moreover from font_resolution [of env_no_fonts] p3
  have "resolve_fonts env_no_fonts = (Some DefaultFont, Some DefaultFont)"
    by blast
  ultimately show ?thesis
    by (simp add: l)
qed

text \<open>
  The claim as written fails where a load raises an exception other than \<^verbatim>\<open>OSError\<close>: in
  \<open>env_first_raises\<close> the second candidate is the first one that exists and loads at both
  sizes, and the script uses the default font.
\<close>

theorem font_resolution_counterexample:
  "\<not> loads_both env_first_raises (font_paths ! 0)
   \<and> loads_both env_first_raises (font_paths ! 1)
   \<and> resolve_fonts env_first_raises \<noteq>
       (Some (TrueTypeFont (font_paths ! 1) 24), Some (TrueTypeFont (font_paths ! 1) 14))
   \<and> resolve_fonts env_first_raises = (Some DefaultFont, Some DefaultFont)"
  by (simp add: loads_both_def resolve_fonts_def font_paths_def env_first_raises_def)

text \<open>
  Left out of the amended claim: a candidate that loads at size 24 and raises \<^verbatim>\<open>OSError\<close>
  at size 14, with no later candidate loading at both sizes. The title handle then stays
  the size 24 font of that candidate and the instruction handle stays \<^verbatim>\<open>None\<close>, because the
  test before the fallback reads the title handle only.
\<close>

lemma partial_load_keeps_title_font:
  "resolve_fonts env_partial_load =
     (Some (TrueTypeFont ''/System/Library/Fonts/Helvetica.ttc'' 24), None)"
  by (simp add: resolve_fonts_def font_paths_def env_partial_load_def)

subsection \<open>Coordinates\<close>

lemma drop_gradient_pass:
  "drop 300 (background_ops e 540 300) =
     text_pass e 540 @ arrow_pass @ cat_pass @ tail_pass @ version_pass e 540 300"
  by (simp add: background_ops_def length_gradient_pass)

lemma coords_gradient_pass:
  "map coords (gradient_pass width height) = map (\<lambda>y. [(0, y), (width, y)]) [0..height - 1]"
  by (simp add: gradient_pass_def gradient_line_def)

lemma all_in_canvas_append:
  "all_in_canvas w h (xs @ ys) = (all_in_canvas w h xs \<and> all_in_canvas w h ys)"
  by (simp add: all_in_canvas_def)

lemma text_pass_in_canvas:
  assumes "0 \<le> title_width e" "title_width e \<le> 540"
    and "0 \<le> instruction_width e" "instruction_width e \<le> 540"
  shows "all_in_canvas 540 300 (text_pass e 540)"
proof -
  have "0 \<le> title_x e 540" "title_x e 540 < 540"
    using assms(1,2) by (simp_all add: title_x_def)
  moreover have "0 \<le> instruction_x e 540" "instruction_x e 540 < 540"
    using assms(3,4) by (simp_all add: instruction_x_def)
  ultimately show ?thesis
    by (simp add: all_in_canvas_def text_pass_def)
qed

lemma fixed_shapes_in_canvas:
  "all_in_canvas 540 300 arrow_pass" "all_in_canvas 540 300 cat_pass"
  "all_in_canvas 540 300 (version_pass e 540 300)"
  by (simp_all add: all_in_canvas_def arrow_pass_def cat_pass_def version_pass_def
      arrow_start_x_def arrow_start_y_def arrow_end_x_def arrow_end_y_def cat_x_def cat_y_def)

lemma tail_y_bounds:
  assumes "0 \<le> i" "i \<le> 19"
  shows "210 \<le> tail_y i" "tail_y i \<le> 214"
proof -
  have "tail_y 0 \<le> tail_y i"
    using assms by (simp add: tail_y_mono)
  then show "210 \<le> tail_y i"
    by (simp add: tail_y_closed)
  have "tail_y i \<le> tail_y 19"
    using assms by (simp add: tail_y_mono)
  then show "tail_y i \<le> 214"
    by (simp add: tail_y_closed)
qed

lemma tail_pass_in_canvas: "all_in_canvas 540 300 tail_pass"
proof -
  have "\<forall>i \<in> set [0..19]. list_all (in_canvas 540 300) (coords (tail_ellipse i))"
  proof
    fix i :: int
    assume "i \<in> set [0..19]"
    then have "0 \<le> i" "i \<le> 19"
      by simp_all
    then show "list_all (in_canvas 540 300) (coords (tail_ellipse i))"
      using tail_y_bounds [of i] by (simp add: tail_ellipse_def tail_x_def cat_x_def)
  qed
  then have "list_all (\<lambda>i. list_all (in_canvas 540 300) (coords (tail_ellipse i))) [0..19]"
    by (simp only: list_all_iff)
  then show ?thesis
    by (simp add: all_in_canvas_def tail_pass_def list_all_iff)
qed

lemma gradient_pass_on_edge: "all_on_canvas_edge 540 300 (gradient_pass 540 300)"
  by (simp add: all_on_canvas_edge_def gradient_pass_def gradient_line_def list_all_iff)

lemma in_canvas_point_on_edge: "in_canvas w h p \<Longrightarrow> on_canvas_edge w h p"
  by (cases p) simp

lemma in_canvas_on_edge: "all_in_canvas w h ops \<Longrightarrow> all_on_canvas_edge w h ops"
  unfolding all_in_canvas_def all_on_canvas_edge_def list_all_iff
  by (blast intro: in_canvas_point_on_edge)

lemma text_origin_in_canvas:
  "in_canvas 540 300 ((540 - tw) div 2, 30) \<longleftrightarrow> - 540 < tw \<and> tw \<le> 540"
  "in_canvas 540 300 ((540 - tw) div 2, 65) \<longleftrightarrow> - 540 < tw \<and> tw \<le> 540"
  by auto

lemma fixed_part_in_canvas: "all_in_canvas 540 300 (drop 302 (background_ops e 540 300))"
proof -
  have "drop 302 (background_ops e 540 300) = drop 2 (drop 300 (background_ops e 540 300))"
    by simp
  also have "\<dots> = arrow_pass @ cat_pass @ tail_pass @ version_pass e 540 300"
    by (simp only: drop_gradient_pass) (simp add: text_pass_def)
  finally show ?thesis
    using fixed_shapes_in_canvas tail_pass_in_canvas by (simp add: all_in_canvas_append)
qed

text \<open>
  Claim C4, amended. On the default 540 x 300 canvas:
  \<^item> the gradient lines (calls 0 to 299) run from \<open>(0, y)\<close> to \<open>(width, y)\<close> for \<open>y\<close> in
    \<open>[0, height)\<close>: their coordinates lie within \<open>[0, width] \<times> [0, height)\<close>, the right end at
    \<open>x = width\<close>;
  \<^item> every coordinate of the calls from 302 on (arrow line and arrowhead, silhouette
    ellipses and ear vertices, tail ellipses, version label origin) lies within
    \<open>[0, width) \<times> [0, height)\<close>;
  \<^item> the two text origins (calls 300 and 301) are \<open>((width - textWidth) div 2, 30)\<close> and
    \<open>((width - textWidth) div 2, 65)\<close>; each lies within \<open>[0, width) \<times> [0, height)\<close> exactly
    when the measured width of its string is above \<open>- width\<close> and at most \<open>width\<close>, so
    whenever it is between 0 and \<open>width\<close>;
  \<^item> so when both measured widths are between 0 and \<open>width\<close>, every coordinate of the
    composition lies within \<open>[0, width] \<times> [0, height)\<close>.
  The first two parts hold whatever the font measurement returns.
\<close>

theorem coordinates_on_canvas:
  "map coords (take 300 (background_ops e 540 300)) = map (\<lambda>y. [(0, y), (540, y)]) [0..299]
   \<and> all_on_canvas_edge 540 300 (take 300 (background_ops e 540 300))
   \<and> all_in_canvas 540 300 (drop 302 (background_ops e 540 300))
   \<and> drop 302 (background_ops e 540 300) =
       arrow_pass @ cat_pass @ tail_pass @ version_pass e 540 300
   \<and> coords (background_ops e 540 300 ! 300) = [(title_x e 540, 30)]
   \<and> coords (background_ops e 540 300 ! 301) = [(instruction_x e 540, 65)]
   \<and> (in_canvas 540 300 (title_x e 540, 30) \<longleftrightarrow> - 540 < title_width e \<and> title_width e \<le> 540)
   \<and> (in_canvas 540 300 (instruction_x e 540, 65) \<longleftrightarrow>
        - 540 < instruction_width e \<and> instruction_width e \<le> 540)
   \<and> (0 \<le> title_width e \<and> title_width e \<le> 540
        \<and> 0 \<le> instruction_width e \<and> instruction_width e \<le> 540 \<longrightarrow>
      all_in_canvas 540 300 (drop 300 (background_ops e 540 300))
      \<and> all_on_canvas_edge 540 300 (background_ops e 540 300))"
proof -
  have g: "take 300 (background_ops e 540 300) = gradient_pass 540 300"
    using take_gradient_pass [of 300 e 540] by simp
  have a: "map coords (take 300 (background_ops e 540 300)) = map (\<lambda>y. [(0, y), (540, y)]) [0..299]"
    using coords_gradient_pass [of 540 300] by (simp add: g)
  have a': "all_on_canvas_edge 540 300 (take 300 (background_ops e 540 300))"
    using gradient_pass_on_edge by (simp only: g)
  have f: "all_in_canvas 540 300 (drop 302 (background_ops e 540 300))"
    by (rule fixed_part_in_canvas)
  have "drop 302 (background_ops e 540 300) = drop 2 (drop 300 (background_ops e 540 300))"
    by simp
  also have "\<dots> = arrow_pass @ cat_pass @ tail_pass @ version_pass e 540 300"
    by (simp only: drop_gradient_pass) (simp add: text_pass_def)
  finally have f': "drop 302 (background_ops e 540 300) =
      arrow_pass @ cat_pass @ tail_pass @ version_pass e 540 300" .
  have t1: "coords (background_ops e 540 300 ! 300) = [(title_x e 540, 30)]"
    by (simp add: nth_background_ops_text text_pass_def)
  have t2: "coords (background_ops e 540 300 ! 301) = [(instruction_x e 540, 65)]"
    by (simp add: nth_background_ops_text text_pass_def)
  have o1: "in_canvas 540 300 (title_x e 540, 30) \<longleftrightarrow> - 540 < title_width e \<and> title_width e \<le> 540"
    unfolding title_x_def by (rule text_origin_in_canvas)
  have o2: "in_canvas 540 300 (instruction_x e 540, 65) \<longleftrightarrow>
      - 540 < instruction_width e \<and> instruction_width e \<le> 540"
    unfolding instruction_x_def by (rule text_origin_in_canvas)
  have c: "all_in_canvas 540 300 (drop 300 (background_ops e 540 300))
      \<and> all_on_canvas_edge 540 300 (background_ops e 540 300)"
    if h: "0 \<le> title_width e \<and> title_width e \<le> 540
        \<and> 0 \<le> instruction_width e \<and> instruction_width e \<le> 540"
  proof -
    have b: "all_in_canvas 540 300 (drop 300 (background_ops e 540 300))"
      using h text_pass_in_canvas [of e] fixed_shapes_in_canvas tail_pass_in_canvas
      by (simp add: drop_gradient_pass all_in_canvas_append)
    have "background_ops e 540 300 =
        take 300 (background_ops e 540 300) @ drop 300 (background_ops e 540 300)"
      by simp
    then have split: "background_ops e 540 300 =
        gradient_pass 540 300 @ drop 300 (background_ops e 540 300)"
      by (simp only: g)
    have "all_on_canvas_edge 540 300 (gradient_pass 540 300 @ drop 300 (background_ops e 540 300))"
      using gradient_pass_on_edge in_canvas_on_edge [OF b] by (simp add: all_on_canvas_edge_def)
    then have "all_on_canvas_edge 540 300 (background_ops e 540 300)"
      using split by simp
    with b show ?thesis
      by simp
  qed
  from a a' f f' t1 t2 o1 o2 c show ?thesis
    by blast
qed

theorem coordinates_on_canvas_witness:
  "title_width env_no_fonts = 108 \<and> instruction_width env_no_fonts = 330
   \<and> in_canvas 540 300 (title_x env_no_fonts 540, 30)
   \<and> in_canvas 540 300 (instruction_x env_no_fonts 540, 65)
   \<and> all_in_canvas 540 300 (drop 300 (background_ops env_no_fonts 540 300))
   \<and> all_on_canvas_edge 540 300 (background_ops env_no_fonts 540 300)
   \<and> all_in_canvas 540 300 (drop 302 (background_ops env_wide_text 540 300))
   \<and> \<not> in_canvas 540 300 (title_x env_wide_text 540, 30)"
proof -
  have r: "resolve_fonts env_no_fonts = (Some DefaultFont, Some DefaultFont)"
    by (simp add: resolve_fonts_def font_paths_def env_no_fonts_def)
  have w1: "title_width env_no_fonts = 108"
    by (simp add: title_width_def text_width_def r title_text_def) (simp add: env_no_fonts_def)
  have w2: "instruction_width env_no_fonts = 330"
    by (simp add: instruction_width_def text_width_def r instruction_text_def)
       (simp add: env_no_fonts_def)
  have r': "resolve_fonts env_wide_text = (Some DefaultFont, Some DefaultFont)"
    by (simp add: resolve_fonts_def font_paths_def env_wide_text_def)
  have w3: "title_width env_wide_text = 600"
    by (simp add: title_width_def text_width_def r') (simp add: env_wide_text_def)
  have h: "0 \<le> title_width env_no_fonts \<and> title_width env_no_fonts \<le> 540
      \<and> 0 \<le> instruction_width env_no_fonts \<and> instruction_width env_no_fonts \<le> 540"
    by (simp add: w1 w2)
  have h1: "- 540 < title_width env_no_fonts \<and> title_width env_no_fonts \<le> 540"
    by (simp add: w1)
  have h2: "- 540 < instruction_width env_no_fonts \<and> instruction_width env_no_fonts \<le> 540"
    by (simp add: w2)
  have h3: "\<not> (- 540 < title_width env_wide_text \<and> title_width env_wide_text \<le> 540)"
    by (simp add: w3)
  from coordinates_on_canvas [of env_no_fonts] coordinates_on_canvas [of env_wide_text]
    w1 w2 h h1 h2 h3
  show ?thesis
    by blast
qed

text \<open>
  The claim as written fails at the first drawing call: the gradient line of scanline 0
  ends at \<open>(540, 0)\<close>, and 540 is not below the width. It also fails for a text origin when
  the string measures wider than the canvas: at 600 pixels the title is drawn at \<open>x = -30\<close>.
\<close>

theorem coordinates_on_canvas_counterexample:
  "coords (background_ops env_no_fonts 540 300 ! 0) = [(0, 0), (540, 0)]
   \<and> \<not> in_canvas 540 300 (540, 0)
   \<and> \<not> all_in_canvas 540 300 (background_ops env_no_fonts 540 300)
   \<and> background_ops env_wide_text 540 300 ! 300 =
       Text (- 30, 30) title_text accent_color (Some DefaultFont)
   \<and> \<not> in_canvas 540 300 (- 30, 30)"
proof -
  have g: "take 300 (background_ops env_no_fonts 540 300) = gradient_pass 540 300"
    using take_gradient_pass [of 300 env_no_fonts 540] by simp
  have "background_ops env_no_fonts 540 300 ! 0 = take 300 (background_ops env_no_fonts 540 300) ! 0"
    by simp
  also have "\<dots> = gradient_pass 540 300 ! nat 0"
    by (simp only: g nat_0)
  also have "\<dots> = gradient_line 540 300 0"
    by (rule nth_gradient_pass) simp_all
  finally have first: "background_ops env_no_fonts 540 300 ! 0 = gradient_line 540 300 0" .
  then have a: "coords (background_ops env_no_fonts 540 300 ! 0) = [(0, 0), (540, 0)]"
    by (simp add: gradient_line_def)
  have len: "0 < length (background_ops env_no_fonts 540 300)"
    by (simp add: background_ops_def length_gradient_pass)
  have "gradient_line 540 300 0 \<in> set (background_ops env_no_fonts 540 300)"
    using nth_mem [OF len] first by simp
  then have "all_in_canvas 540 300 (background_ops env_no_fonts 540 300) \<Longrightarrow>
      list_all (in_canvas 540 300) (coords (gradient_line 540 300 0))"
    unfolding all_in_canvas_def list_all_iff by blast
  then have b: "\<not> all_in_canvas 540 300 (background_ops env_no_fonts 540 300)"
    by (auto simp: gradient_line_def)
  have r: "resolve_fonts env_wide_text = (Some DefaultFont, Some DefaultFont)"
    by (simp add: resolve_fonts_def font_paths_def env_wide_text_def)
  have "title_width env_wide_text = 600"
    by (simp add: title_width_def text_width_def r) (simp add: env_wide_text_def)
  then have c: "background_ops env_wide_text 540 300 ! 300 =
       Text (- 30, 30) title_text accent_color (Some DefaultFont)"
    by (simp add: nth_background_ops_text text_pass_def title_x_def r)
  from a b c show ?thesis
    by simp
qed

subsection \<open>Printing\<close>

lemma print_ascii: "is_ascii s \<Longrightarrow> print e s w = (Normal, w\<lparr>stdout := stdout w @ [s]\<rparr>)"
  by (simp add: print_def)

lemma print_encodable:
  "stdout_encodes e s \<Longrightarrow> print e s w = (Normal, w\<lparr>stdout := stdout w @ [s]\<rparr>)"
  by (simp add: print_def)

lemma print_fails:
  "\<not> is_ascii s \<Longrightarrow> \<not> stdout_encodes e s \<Longrightarrow> print e s w = (Raise UnicodeEncodeError, w)"
  by (simp add: print_def)

lemma usage_message_ascii: "is_ascii usage_message"
  by (simp add: is_ascii_def usage_message_def)

lemma pil_message_ascii: "is_ascii pil_message"
  by (simp add: is_ascii_def pil_message_def)

lemma confirmations_not_ascii:
  "\<not> is_ascii (created_prefix @ p)" "\<not> is_ascii (professional_prefix @ p)"
  by (simp_all add: is_ascii_def created_prefix_def professional_prefix_def)

subsection \<open>The command line\<close>

lemma import_block_available: "pil_available e \<Longrightarrow> import_block e w = (Normal, w)"
  by (simp add: import_block_def)

lemma run_script_main: "pil_available e \<Longrightarrow> run_script e argv w = main e argv w"
  by (simp add: run_script_def import_block_available)

text \<open>
  Claim C6. With Pillow importable, an argument vector whose length is not 2 (the script
  name alone, or the script name and two or more arguments) prints the usage message to
  standard output and leaves with \<^verbatim>\<open>sys.exit(1)\<close>: the exit status is 1, no canvas is
  allocated, and no file or directory is created.
\<close>

theorem wrong_argument_count:
  assumes "pil_available e" "length argv \<noteq> 2"
  shows "run_script e argv w = (SysExit 1, w\<lparr>stdout := stdout w @ [usage_message]\<rparr>)
    \<and> exit_status (fst (run_script e argv w)) = 1
    \<and> exit_status (fst (run_script e argv w)) \<noteq> 0
    \<and> stdout (snd (run_script e argv w)) = stdout w @ [usage_message]
    \<and> canvases (snd (run_script e argv w)) = canvases w
    \<and> files (snd (run_script e argv w)) = files w
    \<and> dirs (snd (run_script e argv w)) = dirs w"
proof -
  have "run_script e argv w = (SysExit 1, w\<lparr>stdout := stdout w @ [usage_message]\<rparr>)"
    using assms by (simp add: run_script_main main_def print_ascii usage_message_ascii)
  then show ?thesis
    by simp
qed

theorem wrong_argument_count_witness:
  "run_script env_no_fonts [''create_background.py''] world_empty =
     (SysExit 1, world_empty\<lparr>stdout := [''Usage: python3 create_background.py <output_path>'']\<rparr>)
   \<and> run_script env_no_fonts [''create_background.py'', ''a.png'', ''b.png''] world_empty =
     (SysExit 1, world_empty\<lparr>stdout := [''Usage: python3 create_background.py <output_path>'']\<rparr>)
   \<and> files (snd (run_script env_no_fonts [''create_background.py''] world_empty)) = Map.empty
   \<and> canvases (snd (run_script env_no_fonts [''create_background.py''] world_empty)) = []"
proof -
  have p: "pil_available env_no_fonts"
    by (simp add: env_no_fonts_def)
  have l1: "length [''create_background.py''] \<noteq> 2"
    by simp
  have l3: "length [''create_background.py'', ''a.png'', ''b.png''] \<noteq> 2"
    by simp
  have s: "stdout world_empty = []" "files world_empty = Map.empty" "canvases world_empty = []"
    by (simp_all add: world_empty_def)
  from wrong_argument_count [OF p l1, of world_empty] wrong_argument_count [OF p l3, of world_empty]
  show ?thesis
    by (simp add: s usage_message_def)
qed

text \<open>
  Claim C8. When Pillow cannot be imported, the diagnostic is printed and the process ends
  with a non-zero exit status, before \<^verbatim>\<open>main\<close> runs: no canvas is allocated and the file
  system is untouched. (The handler's \<^verbatim>\<open>sys.exit(1)\<close> reads the name \<^verbatim>\<open>sys\<close>, whose import
  comes after the failed one, so the process ends by the uncaught \<^verbatim>\<open>NameError\<close>, with the
  exit status 1 all the same.)
\<close>

theorem missing_pil_is_fatal:
  assumes "\<not> pil_available e"
  shows "run_script e argv w = (Raise NameError, w\<lparr>stdout := stdout w @ [pil_message]\<rparr>)
    \<and> exit_status (fst (run_script e argv w)) = 1
    \<and> exit_status (fst (run_script e argv w)) \<noteq> 0
    \<and> stdout (snd (run_script e argv w)) = stdout w @ [pil_message]
    \<and> canvases (snd (run_script e argv w)) = canvases w
    \<and> files (snd (run_script e argv w)) = files w
    \<and> dirs (snd (run_script e argv w)) = dirs w"
proof -
  have "run_script e argv w = (Raise NameError, w\<lparr>stdout := stdout w @ [pil_message]\<rparr>)"
    using assms
    by (simp add: run_script_def import_block_def print_ascii pil_message_ascii
        bound_at_import_failure_def)
  then show ?thesis
    by simp
qed

theorem missing_pil_is_fatal_witness:
  "exit_status (fst (run_script env_no_pil [''create_background.py'', ''build/dmg/background.png'']
      world_empty)) = 1
   \<and> stdout (snd (run_script env_no_pil [''create_background.py'', ''build/dmg/background.png'']
      world_empty)) = [''PIL (Pillow) not available. Install with: pip install Pillow'']
   \<and> canvases (snd (run_script env_no_pil [''create_background.py'', ''build/dmg/background.png'']
      world_empty)) = []
   \<and> dirs (snd (run_script env_no_pil [''create_background.py'', ''build/dmg/background.png'']
      world_empty)) = {}"
proof -
  have p: "\<not> pil_available env_no_pil"
    by (simp add: env_no_pil_def)
  have s: "stdout world_empty = []" "dirs world_empty = {}" "canvases world_empty = []"
    by (simp_all add: world_empty_def)
  from missing_pil_is_fatal [OF p, of "[''create_background.py'', ''build/dmg/background.png'']"
      world_empty]
  show ?thesis
    by (simp add: s pil_message_def)
qed

subsection \<open>The output directory\<close>

lemma path_chain_self: "p \<noteq> [] \<Longrightarrow> p \<in> set (path_chain p)"
  by (subst path_chain.simps) simp

lemma dirname_no_slash: "CHR ''/'' \<notin> set p \<Longrightarrow> dirname p = []"
proof -
  assume "CHR ''/'' \<notin> set p"
  then have "dropWhile (\<lambda>c. c \<noteq> CHR ''/'') (rev p) = []"
    by (auto simp: dropWhile_eq_Nil_conv)
  then show ?thesis
    by (simp add: dirname_def)
qed

lemma makedirs_creates:
  assumes "name \<noteq> []" "name \<notin> dirs w" "may_mkdir e name"
  shows "makedirs e name w = (Normal, w\<lparr>dirs := dirs w \<union> set (path_chain name)\<rparr>)"
  using assms by (simp add: makedirs_def)

lemma image_save_without_directory:
  assumes "dirname output_path \<noteq> []" "dirname output_path \<notin> dirs w"
  shows "image_save e output_path width height ops w = (Raise FileNotFoundError, w)"
  using assms by (simp add: image_save_def)

lemma image_save_with_directory:
  assumes "dirname output_path \<in> dirs w" "may_write e output_path" "width \<noteq> 0" "height \<noteq> 0"
  shows "image_save e output_path width height ops w =
    (Normal, w\<lparr>files := (files w)(output_path \<mapsto> png_encode e width height ops)\<rparr>)"
  using assms by (simp add: image_save_def)

text \<open>
  The run up to the end of the save: the directories are created, the canvas is composed,
  the file is written, and the two prints are still to come.
\<close>

lemma run_script_after_save:
  assumes "pil_available e"
    and "dirname output_path \<noteq> []" "dirname output_path \<notin> dirs w"
    and "may_mkdir e (dirname output_path)" "may_write e output_path"
  shows "run_script e [prog, output_path] w =
      (case print e (created_prefix @ output_path)
         (w\<lparr>dirs := dirs w \<union> set (path_chain (dirname output_path)),
            files := (files w)(output_path \<mapsto> png_encode e 540 300 (background_ops e 540 300)),
            canvases := canvases w @ [(540, 300, background_ops e 540 300)]\<rparr>) of
         (Normal, w2) \<Rightarrow> print e (professional_prefix @ output_path) w2
       | (r, w2) \<Rightarrow> (r, w2))"
proof -
  define w1 where "w1 = w\<lparr>dirs := dirs w \<union> set (path_chain (dirname output_path))\<rparr>"
  define w1c where "w1c = w1\<lparr>canvases := canvases w1 @ [(540, 300, background_ops e 540 300)]\<rparr>"
  define ws where
    "ws = w1c\<lparr>files := (files w1c)(output_path \<mapsto> png_encode e 540 300 (background_ops e 540 300))\<rparr>"
  have m: "makedirs e (dirname output_path) w = (Normal, w1)"
    unfolding w1_def using assms(2-4) by (rule makedirs_creates)
  have member: "dirname output_path \<in> dirs w1c"
    using path_chain_self [OF assms(2)] by (simp add: w1c_def w1_def)
  have s: "image_save e output_path 540 300 (background_ops e 540 300) w1c = (Normal, ws)"
    unfolding ws_def using member assms(5) by (rule image_save_with_directory) simp_all
  have c: "create_dmg_background e output_path 540 300 w1 =
      print e (created_prefix @ output_path) ws"
    using s by (simp add: create_dmg_background_def Let_def w1c_def)
  have mn: "main e [prog, output_path] w =
      (case makedirs e (dirname output_path) w of
         (Normal, w1) \<Rightarrow>
           (case create_dmg_background e output_path 540 300 w1 of
              (Normal, w2) \<Rightarrow> print e (professional_prefix @ output_path) w2
            | (r, w2) \<Rightarrow> (r, w2))
       | (r, w1) \<Rightarrow> (r, w1))"
    by (simp add: main_def)
  have "main e [prog, output_path] w =
      (case print e (created_prefix @ output_path) ws of
         (Normal, w2) \<Rightarrow> print e (professional_prefix @ output_path) w2
       | (r, w2) \<Rightarrow> (r, w2))"
    by (simp only: mn m c prod.case result.case)
  moreover have "ws =
      w\<lparr>dirs := dirs w \<union> set (path_chain (dirname output_path)),
        files := (files w)(output_path \<mapsto> png_encode e 540 300 (background_ops e 540 300)),
        canvases := canvases w @ [(540, 300, background_ops e 540 300)]\<rparr>"
    unfolding ws_def w1c_def w1_def by simp
  ultimately show ?thesis
    using assms(1) by (simp only: run_script_main)
qed

text \<open>
  Claim C7, amended. With Pillow importable and one argument whose directory part is not
  empty, does not exist yet and can be created, and whose file can be written: \<^verbatim>\<open>main\<close>
  creates the directory and the missing directories above it before the save (in the world
  before \<^verbatim>\<open>makedirs\<close> the same save raises \<^verbatim>\<open>FileNotFoundError\<close>), the canvas is composed and
  the PNG is written at the output path. When standard output can encode the two
  confirmation lines, which start with characters outside ASCII, both are printed, each
  ending in the output path, and the exit status is 0. When it cannot encode the first
  line, the print raises \<^verbatim>\<open>UnicodeEncodeError\<close> after the PNG is written: nothing is printed
  and the exit status is 1. When it can encode the first line and not the second, the
  first line is printed and the exit status is 1.
\<close>

theorem creates_parent_directory:
  assumes "pil_available e"
    and "dirname output_path \<noteq> []" "dirname output_path \<notin> dirs w"
    and "may_mkdir e (dirname output_path)" "may_write e output_path"
  shows "image_save e output_path 540 300 (background_ops e 540 300) w = (Raise FileNotFoundError, w)
    \<and> makedirs e (dirname output_path) w =
        (Normal, w\<lparr>dirs := dirs w \<union> set (path_chain (dirname output_path))\<rparr>)
    \<and> dirname output_path \<in> dirs (snd (run_script e [prog, output_path] w))
    \<and> set (path_chain (dirname output_path)) \<subseteq> dirs (snd (run_script e [prog, output_path] w))
    \<and> files (snd (run_script e [prog, output_path] w)) output_path =
        Some (png_encode e 540 300 (background_ops e 540 300))
    \<and> canvases (snd (run_script e [prog, output_path] w)) =
        canvases w @ [(540, 300, background_ops e 540 300)]
    \<and> (stdout_encodes e (created_prefix @ output_path)
         \<and> stdout_encodes e (professional_prefix @ output_path) \<longrightarrow>
       run_script e [prog, output_path] w =
         (Normal,
          w\<lparr>dirs := dirs w \<union> set (path_chain (dirname output_path)),
            files := (files w)(output_path \<mapsto> png_encode e 540 300 (background_ops e 540 300)),
            stdout := stdout w @ [created_prefix @ output_path, professional_prefix @ output_path],
            canvases := canvases w @ [(540, 300, background_ops e 540 300)]\<rparr>)
       \<and> exit_status (fst (run_script e [prog, output_path] w)) = 0)
    \<and> (\<not> stdout_encodes e (created_prefix @ output_path) \<longrightarrow>
       run_script e [prog, output_path] w =
         (Raise UnicodeEncodeError,
          w\<lparr>dirs := dirs w \<union> set (path_chain (dirname output_path)),
            files := (files w)(output_path \<mapsto> png_encode e 540 300 (background_ops e 540 300)),
            canvases := canvases w @ [(540, 300, background_ops e 540 300)]\<rparr>)
       \<and> stdout (snd (run_script e [prog, output_path] w)) = stdout w
       \<and> exit_status (fst (run_script e [prog, output_path] w)) = 1)
    \<and> (stdout_encodes e (created_prefix @ output_path)
         \<and> \<not> stdout_encodes e (professional_prefix @ output_path) \<longrightarrow>
       run_script e [prog, output_path] w =
         (Raise UnicodeEncodeError,
          w\<lparr>dirs := dirs w \<union> set (path_chain (dirname output_path)),
            files := (files w)(output_path \<mapsto> png_encode e 540 300 (background_ops e 540 300)),
            stdout := stdout w @ [created_prefix @ output_path],
            canvases := canvases w @ [(540, 300, background_ops e 540 300)]\<rparr>)
       \<and> exit_status (fst (run_script e [prog, output_path] w)) = 1)"
proof -
  define ws where "ws =
      w\<lparr>dirs := dirs w \<union> set (path_chain (dirname output_path)),
        files := (files w)(output_path \<mapsto> png_encode e 540 300 (background_ops e 540 300)),
        canvases := canvases w @ [(540, 300, background_ops e 540 300)]\<rparr>"
  have run: "run_script e [prog, output_path] w =
      (case print e (created_prefix @ output_path) ws of
         (Normal, w2) \<Rightarrow> print e (professional_prefix @ output_path) w2
       | (r, w2) \<Rightarrow> (r, w2))"
    unfolding ws_def using assms by (rule run_script_after_save)
  have f: "image_save e output_path 540 300 (background_ops e 540 300) w = (Raise FileNotFoundError, w)"
    using assms(2,3) by (rule image_save_without_directory)
  have m: "makedirs e (dirname output_path) w =
      (Normal, w\<lparr>dirs := dirs w \<union> set (path_chain (dirname output_path))\<rparr>)"
    using assms(2-4) by (rule makedirs_creates)
  have both: "run_script e [prog, output_path] w =
      (Normal, ws\<lparr>stdout := stdout ws @ [created_prefix @ output_path, professional_prefix @ output_path]\<rparr>)"
    if "stdout_encodes e (created_prefix @ output_path)"
      "stdout_encodes e (professional_prefix @ output_path)"
    using that by (simp add: run print_encodable)
  have none: "run_script e [prog, output_path] w = (Raise UnicodeEncodeError, ws)"
    if "\<not> stdout_encodes e (created_prefix @ output_path)"
    using that by (simp add: run print_fails confirmations_not_ascii)
  have first: "run_script e [prog, output_path] w =
      (Raise UnicodeEncodeError, ws\<lparr>stdout := stdout ws @ [created_prefix @ output_path]\<rparr>)"
    if "stdout_encodes e (created_prefix @ output_path)"
      "\<not> stdout_encodes e (professional_prefix @ output_path)"
    using that by (simp add: run print_encodable print_fails confirmations_not_ascii)
  have cases: "snd (run_script e [prog, output_path] w) = ws
      \<or> snd (run_script e [prog, output_path] w) = ws\<lparr>stdout := stdout ws @ [created_prefix @ output_path]\<rparr>
      \<or> snd (run_script e [prog, output_path] w) =
          ws\<lparr>stdout := stdout ws @ [created_prefix @ output_path, professional_prefix @ output_path]\<rparr>"
    using both none first by (metis snd_conv)
  have d: "dirs (snd (run_script e [prog, output_path] w)) =
      dirs w \<union> set (path_chain (dirname output_path))"
    using cases by (auto simp: ws_def)
  have fl: "files (snd (run_script e [prog, output_path] w)) output_path =
      Some (png_encode e 540 300 (background_ops e 540 300))"
    using cases by (auto simp: ws_def)
  have cv: "canvases (snd (run_script e [prog, output_path] w)) =
      canvases w @ [(540, 300, background_ops e 540 300)]"
    using cases by (auto simp: ws_def)
  have p1: "dirname output_path \<in> dirs (snd (run_script e [prog, output_path] w))"
    using path_chain_self [OF assms(2)] by (simp add: d)
  have p2: "set (path_chain (dirname output_path)) \<subseteq> dirs (snd (run_script e [prog, output_path] w))"
    by (simp add: d)
  have c1: "run_script e [prog, output_path] w =
         (Normal,
          w\<lparr>dirs := dirs w \<union> set (path_chain (dirname output_path)),
            files := (files w)(output_path \<mapsto> png_encode e 540 300 (background_ops e 540 300)),
            stdout := stdout w @ [created_prefix @ output_path, professional_prefix @ output_path],
            canvases := canvases w @ [(540, 300, background_ops e 540 300)]\<rparr>)
       \<and> exit_status (fst (run_script e [prog, output_path] w)) = 0"
    if "stdout_encodes e (created_prefix @ output_path)
         \<and> stdout_encodes e (professional_prefix @ output_path)"
    using that both by (simp add: ws_def)
  have c2: "run_script e [prog, output_path] w =
         (Raise UnicodeEncodeError,
          w\<lparr>dirs := dirs w \<union> set (path_chain (dirname output_path)),
            files := (files w)(output_path \<mapsto> png_encode e 540 300 (background_ops e 540 300)),
            canvases := canvases w @ [(540, 300, background_ops e 540 300)]\<rparr>)
       \<and> stdout (snd (run_script e [prog, output_path] w)) = stdout w
       \<and> exit_status (fst (run_script e [prog, output_path] w)) = 1"
    if "\<not> stdout_encodes e (created_prefix @ output_path)"
    using that none by (simp add: ws_def)
  have c3: "run_script e [prog, output_path] w =
         (Raise UnicodeEncodeError,
          w\<lparr>dirs := dirs w \<union> set (path_chain (dirname output_path)),
            files := (files w)(output_path \<mapsto> png_encode e 540 300 (background_ops e 540 300)),
            stdout := stdout w @ [created_prefix @ output_path],
            canvases := canvases w @ [(540, 300, background_ops e 540 300)]\<rparr>)
       \<and> exit_status (fst (run_script e [prog, output_path] w)) = 1"
    if "stdout_encodes e (created_prefix @ output_path)
         \<and> \<not> stdout_encodes e (professional_prefix @ output_path)"
    using that first by (simp add: ws_def)
  from f m p1 p2 fl cv c1 c2 c3 show ?thesis
    by blast
qed
theorem creates_parent_directory_witness:
  "dirname ''build/dmg/background.png'' = ''build/dmg''
   \<and> fst (run_script env_no_fonts [''create_background.py'', ''build/dmg/background.png'']
       world_empty) = Normal
   \<and> exit_status (fst (run_script env_no_fonts
       [''create_background.py'', ''build/dmg/background.png''] world_empty)) = 0
   \<and> dirs (snd (run_script env_no_fonts [''create_background.py'', ''build/dmg/background.png'']
       world_empty)) = {''build/dmg'', ''build''}
   \<and> files (snd (run_script env_no_fonts [''create_background.py'', ''build/dmg/background.png'']
       world_empty)) ''build/dmg/background.png'' =
       Some (png_encode env_no_fonts 540 300 (background_ops env_no_fonts 540 300))
   \<and> stdout (snd (run_script env_no_fonts [''create_background.py'', ''build/dmg/background.png'']
       world_empty)) =
       [created_prefix @ ''build/dmg/background.png'',
        professional_prefix @ ''build/dmg/background.png'']
   \<and> exit_status (fst (run_script env_ascii_stdout
       [''create_background.py'', ''build/dmg/background.png''] world_empty)) = 1"
proof -
  have d: "dirname ''build/dmg/background.png'' = ''build/dmg''"
    by (simp add: dirname_def)
  have d2: "dirname ''build/dmg'' = ''build''" "dirname ''build'' = []"
    by (simp_all add: dirname_def)
  have pc: "path_chain ''build/dmg'' = [''build/dmg'', ''build'']"
    by (simp add: path_chain.simps d2)
  have h: "pil_available env_no_fonts"
    "dirname ''build/dmg/background.png'' \<noteq> []"
    "dirname ''build/dmg/background.png'' \<notin> dirs world_empty"
    "may_mkdir env_no_fonts (dirname ''build/dmg/background.png'')"
    "may_write env_no_fonts ''build/dmg/background.png''"
    by (simp_all add: d env_no_fonts_def world_empty_def)
  have h': "pil_available env_ascii_stdout"
    "dirname ''build/dmg/background.png'' \<noteq> []"
    "dirname ''build/dmg/background.png'' \<notin> dirs world_empty"
    "may_mkdir env_ascii_stdout (dirname ''build/dmg/background.png'')"
    "may_write env_ascii_stdout ''build/dmg/background.png''"
    by (simp_all add: d env_ascii_stdout_def world_empty_def)
  have enc: "stdout_encodes env_no_fonts (created_prefix @ ''build/dmg/background.png'')
      \<and> stdout_encodes env_no_fonts (professional_prefix @ ''build/dmg/background.png'')"
    by (simp add: env_no_fonts_def)
  have not_enc: "\<not> stdout_encodes env_ascii_stdout (created_prefix @ ''build/dmg/background.png'')"
    by (simp add: env_ascii_stdout_def)
  have s: "stdout world_empty = []" "dirs world_empty = {}"
    by (simp_all add: world_empty_def)
  note t = creates_parent_directory [OF h, where prog = "''create_background.py''"]
  note t' = creates_parent_directory [OF h', where prog = "''create_background.py''"]
  from t enc have r: "run_script env_no_fonts [''create_background.py'', ''build/dmg/background.png'']
      world_empty =
      (Normal,
       world_empty\<lparr>dirs := dirs world_empty \<union> set (path_chain (dirname ''build/dmg/background.png'')),
         files := (files world_empty)(''build/dmg/background.png'' \<mapsto>
           png_encode env_no_fonts 540 300 (background_ops env_no_fonts 540 300)),
         stdout := stdout world_empty @ [created_prefix @ ''build/dmg/background.png'',
           professional_prefix @ ''build/dmg/background.png''],
         canvases := canvases world_empty @ [(540, 300, background_ops env_no_fonts 540 300)]\<rparr>)"
    by blast
  from t' not_enc have r': "exit_status (fst (run_script env_ascii_stdout
       [''create_background.py'', ''build/dmg/background.png''] world_empty)) = 1"
    by blast
  have ds: "dirs world_empty \<union> set (path_chain (dirname ''build/dmg/background.png'')) =
      {''build/dmg'', ''build''}"
    unfolding d pc s by simp
  show ?thesis
    unfolding r ds using r' by (simp add: d s)
qed

text \<open>
  The claim as written fails when standard output cannot encode the confirmation: with
  an ASCII standard output, a directory that does not exist and can be created, and a file
  that can be written, the PNG is written, nothing is printed, and the exit status is 1.
\<close>

theorem creates_parent_directory_counterexample:
  "pil_available env_ascii_stdout
   \<and> dirname ''build/dmg/background.png'' = ''build/dmg''
   \<and> ''build/dmg'' \<notin> dirs world_empty
   \<and> may_mkdir env_ascii_stdout ''build/dmg''
   \<and> may_write env_ascii_stdout ''build/dmg/background.png''
   \<and> fst (run_script env_ascii_stdout [''create_background.py'', ''build/dmg/background.png'']
       world_empty) = Raise UnicodeEncodeError
   \<and> exit_status (fst (run_script env_ascii_stdout
       [''create_background.py'', ''build/dmg/background.png''] world_empty)) = 1
   \<and> stdout (snd (run_script env_ascii_stdout
       [''create_background.py'', ''build/dmg/background.png''] world_empty)) = []
   \<and> files (snd (run_script env_ascii_stdout
       [''create_background.py'', ''build/dmg/background.png''] world_empty))
       ''build/dmg/background.png'' =
       Some (png_encode env_ascii_stdout 540 300 (background_ops env_ascii_stdout 540 300))"
proof -
  have d: "dirname ''build/dmg/background.png'' = ''build/dmg''"
    by (simp add: dirname_def)
  have h: "pil_available env_ascii_stdout"
    "dirname ''build/dmg/background.png'' \<noteq> []"
    "dirname ''build/dmg/background.png'' \<notin> dirs world_empty"
    "may_mkdir env_ascii_stdout (dirname ''build/dmg/background.png'')"
    "may_write env_ascii_stdout ''build/dmg/background.png''"
    by (simp_all add: d env_ascii_stdout_def world_empty_def)
  have not_enc: "\<not> stdout_encodes env_ascii_stdout (created_prefix @ ''build/dmg/background.png'')"
    by (simp add: env_ascii_stdout_def)
  have s: "stdout world_empty = []"
    by (simp add: world_empty_def)
  have "run_script env_ascii_stdout [''create_background.py'', ''build/dmg/background.png'']
      world_empty =
      (Raise UnicodeEncodeError,
       world_empty\<lparr>dirs := dirs world_empty \<union> set (path_chain (dirname ''build/dmg/background.png'')),
         files := (files world_empty)(''build/dmg/background.png'' \<mapsto>
           png_encode env_ascii_stdout 540 300 (background_ops env_ascii_stdout 540 300)),
         canvases := canvases world_empty @ [(540, 300, background_ops env_ascii_stdout 540 300)]\<rparr>)"
    unfolding run_script_after_save [OF h, where prog = "''create_background.py''"]
    using not_enc by (simp add: print_fails confirmations_not_ascii)
  then show ?thesis
    using h by (simp add: d s)
qed

text \<open>
  Claim C10. With Pillow importable and one argument that has no directory part (no
  \<^verbatim>\<open>/\<close> in it, as in \<^verbatim>\<open>out.png\<close>), \<^verbatim>\<open>os.path.dirname\<close> gives the empty string, \<^verbatim>\<open>os.makedirs\<close>
  raises \<^verbatim>\<open>FileNotFoundError\<close> on it and nobody catches it: the run ends with a non-zero exit
  status before \<^verbatim>\<open>create_dmg_background\<close> is called, no canvas is allocated and no file is
  written, whatever the file system would have allowed.
\<close>

theorem bare_filename_aborts:
  assumes "pil_available e" "CHR ''/'' \<notin> set output_path"
  shows "dirname output_path = []
    \<and> makedirs e (dirname output_path) w = (Raise FileNotFoundError, w)
    \<and> run_script e [prog, output_path] w = (Raise FileNotFoundError, w)
    \<and> exit_status (fst (run_script e [prog, output_path] w)) \<noteq> 0
    \<and> canvases (snd (run_script e [prog, output_path] w)) = canvases w
    \<and> files (snd (run_script e [prog, output_path] w)) = files w"
proof -
  have d: "dirname output_path = []"
    using assms(2) by (rule dirname_no_slash)
  have m: "makedirs e (dirname output_path) w = (Raise FileNotFoundError, w)"
    by (simp add: d makedirs_def)
  have "run_script e [prog, output_path] w = (Raise FileNotFoundError, w)"
    using assms(1) by (simp add: run_script_main main_def m)
  with d m show ?thesis
    by simp
qed

theorem bare_filename_aborts_witness:
  "dirname ''out.png'' = []
   \<and> may_write env_no_fonts ''out.png''
   \<and> run_script env_no_fonts [''create_background.py'', ''out.png''] world_empty =
       (Raise FileNotFoundError, world_empty)
   \<and> files (snd (run_script env_no_fonts [''create_background.py'', ''out.png''] world_empty))
       ''out.png'' = None"
proof -
  have h: "pil_available env_no_fonts" "CHR ''/'' \<notin> set ''out.png''"
    by (simp_all add: env_no_fonts_def)
  have s: "files world_empty = Map.empty" "may_write env_no_fonts ''out.png''"
    by (simp_all add: world_empty_def env_no_fonts_def)
  from bare_filename_aborts [OF h, where prog = "''create_background.py''" and w = world_empty]
  show ?thesis
    by (simp add: s)
qed

end
